theory Spec2Isabelle
  imports
    Complex_Main
    "HOL-Library.Char_ord"
    "HOL-Library.List_Lexorder"
    "HOL-Library.Option_ord"
begin

section \<open>Python values, errors and numpy floats\<close>

text \<open>
  Exceptions of the source are values: every function that can raise returns
  \<open>error + 'a\<close> with \<open>Inl\<close> for the exception.
\<close>

datatype error =
    ValueError
  | KeyError
  | IndexError
  | ZeroDivisionError
  | TypeError
  | AttributeError
  | AssertionError
  | NanFoundError

text \<open>
  A float of numpy / TensorFlow: a finite value (idealised as a real number, so rounding
  is not modelled), the two infinities, or NaN.
\<close>

datatype npfloat = Val real | PInf | NInf | NaN

text \<open>The values an \<open>options\<close> dictionary holds.\<close>

datatype pyval = StrV string | IntV int | BoolV bool

type_synonym options = "string \<rightharpoonup> pyval"

type_synonym result_dict = "string \<rightharpoonup> npfloat"

text \<open>\<open>np.isnan\<close>: true for NaN only, not for an infinity.\<close>

fun isnan :: "npfloat \<Rightarrow> bool" where
  "isnan NaN = True"
| "isnan _ = False"


fun np_add :: "npfloat \<Rightarrow> npfloat \<Rightarrow> npfloat" where
  "np_add (Val a) (Val b) = Val (a + b)"
| "np_add NaN _ = NaN"
| "np_add _ NaN = NaN"
| "np_add PInf NInf = NaN"
| "np_add NInf PInf = NaN"
| "np_add PInf _ = PInf"
| "np_add _ PInf = PInf"
| "np_add NInf _ = NInf"
| "np_add _ NInf = NInf"

text \<open>Multiplication by a positive finite constant, as in \<open>images *= 255.0\<close>.\<close>

fun np_scale :: "real \<Rightarrow> npfloat \<Rightarrow> npfloat" where
  "np_scale c (Val a) = Val (c * a)"
| "np_scale c x = x"

text \<open>Division of a sum by a positive count, the last step of \<open>np.mean\<close>.\<close>

fun np_div_count :: "npfloat \<Rightarrow> nat \<Rightarrow> npfloat" where
  "np_div_count (Val a) n = Val (a / real n)"
| "np_div_count x n = x"

text \<open>\<open>np.mean\<close> of a list: NaN (with a warning) on the empty list.\<close>

definition np_mean :: "npfloat list \<Rightarrow> npfloat" where
  "np_mean xs = (if xs = [] then NaN else np_div_count (foldl np_add (Val 0) xs) (length xs))"

text \<open>The comparisons \<open>x >= t\<close> and \<open>x < t\<close>; both are false on NaN.\<close>

fun np_ge :: "npfloat \<Rightarrow> real \<Rightarrow> bool" where
  "np_ge (Val a) t = (a \<ge> t)"
| "np_ge PInf t = True"
| "np_ge NInf t = False"
| "np_ge NaN t = False"

fun np_lt :: "npfloat \<Rightarrow> real \<Rightarrow> bool" where
  "np_lt (Val a) t = (a < t)"
| "np_lt PInf t = False"
| "np_lt NInf t = True"
| "np_lt NaN t = False"

text \<open>\<open>xs[0]\<close> raises IndexError on an empty sequence.\<close>

definition first :: "'a list \<Rightarrow> error + 'a" where
  "first xs = (case xs of [] \<Rightarrow> Inl IndexError | x # _ \<Rightarrow> Inr x)"

text \<open>The slice \<open>xs[start:end]\<close> for \<open>0 \<le> start \<le> end\<close>; it clamps at the end of the list.\<close>

definition slice :: "'a list \<Rightarrow> nat \<Rightarrow> nat \<Rightarrow> 'a list" where
  "slice xs start_idx end_idx = take (end_idx - start_idx) (drop start_idx xs)"

text \<open>\<open>sum(bs) / float(len(bs))\<close> for a list of booleans.\<close>

definition bool_mean :: "bool list \<Rightarrow> error + npfloat" where
  "bool_mean bs =
     (if length bs = 0 then Inl ZeroDivisionError
      else Inr (Val (real (length (filter (\<lambda>b. b) bs)) / real (length bs))))"

text \<open>Sequencing of two steps that may raise: the second runs on the first one's result.\<close>

definition and_then :: "error + 'a \<Rightarrow> ('a \<Rightarrow> error + 'b) \<Rightarrow> error + 'b" where
  "and_then m f = (case m of Inl e \<Rightarrow> Inl e | Inr x \<Rightarrow> f x)"

text \<open>\<open>options[key]\<close> raises KeyError for a missing key.\<close>

definition getitem :: "options \<Rightarrow> string \<Rightarrow> error + pyval" where
  "getitem options key = (case options key of None \<Rightarrow> Inl KeyError | Some v \<Rightarrow> Inr v)"

section \<open>Images and the model collaborator\<close>

text \<open>
  An image is a height x width x channels array of floats, a population (or batch) a list
  of images. numpy arrays are rectangular; the shape is read off the first elements.
\<close>

type_synonym image = "npfloat list list list"

definition INCEPTION_BATCH :: int where
  "INCEPTION_BATCH = 50"

definition NAN_DETECTED :: npfloat where
  "NAN_DETECTED = Val 31337.0"

text \<open>
  The GAN object, reduced to what the evaluation feeds and fetches. \<open>'z\<close> is a latent
  batch, \<open>'s\<close> the state of the random number generator, which \<open>z_generator\<close> advances.
  \<open>discriminator_output\<close> is fetched with \<open>gan.inputs\<close> fed, \<open>d_loss\<close> with
  \<open>gan.inputs\<close> and \<open>gan.z\<close> fed, \<open>fake_images\<close> with \<open>gan.z\<close> fed.
\<close>

record ('z, 's) gan =
  batch_size :: nat
  z_dim :: nat
  z_generator :: "nat \<Rightarrow> nat \<Rightarrow> 's \<Rightarrow> 'z \<times> 's"
  fake_images :: "'z \<Rightarrow> image list"
  discriminator_output :: "image list \<Rightarrow> npfloat list"
  d_loss :: "image list \<Rightarrow> 'z \<Rightarrow> npfloat"

section \<open>GetRealImages\<close>

definition scale_images :: "real \<Rightarrow> image list \<Rightarrow> image list" where
  "scale_images c = map (map (map (map (np_scale c))))"

text \<open>
  \<open>load_dataset dataset split_name\<close> is the finite sequence the one-shot iterator yields.
  The loop reads at most \<open>num_examples\<close> of it and stops at the end of the data.
\<close>

definition GetRealImages ::
  "(pyval \<Rightarrow> string \<Rightarrow> image list) \<Rightarrow> pyval \<Rightarrow> string \<Rightarrow> int \<Rightarrow> bool \<Rightarrow> error + image list" where
  "GetRealImages load_dataset dataset split_name num_examples failure_on_insufficient_examples =
     (let data_x = take (nat num_examples) (load_dataset dataset split_name) in
      if int (length data_x) \<noteq> num_examples \<and> failure_on_insufficient_examples
      then Inl ValueError
      else Inr (scale_images 255.0 data_x))"

section \<open>ComputeAccuracyLoss\<close>

text \<open>
  The list-valued local variables of \<open>ComputeAccuracyLoss\<close>. The names
  \<open>train_d_losses\<close> and \<open>test_d_losses\<close> are used both for the per-repeat results
  (lines 262-263, 323-324) and for the per-batch losses (lines 271-272, 297, 288): they
  are the same two variables.
\<close>

record locals =
  train_accuracies :: "npfloat list"
  test_accuracies :: "npfloat list"
  fake_accuracies :: "npfloat list"
  train_d_losses :: "npfloat list"
  test_d_losses :: "npfloat list"
  train_predictions :: "npfloat list"
  test_predictions :: "npfloat list"
  fake_predictions :: "npfloat list"

text \<open>The loop \<open>for i in range(num_batches)\<close>, lines 274-301.\<close>

fun batch_loop ::
  "('z, 's) gan \<Rightarrow> image list \<Rightarrow> image list \<Rightarrow> nat list \<Rightarrow> locals \<Rightarrow> 's \<Rightarrow> error + locals \<times> 's" where
  "batch_loop gan test_images train_subset [] v s = Inr (v, s)"
| "batch_loop gan test_images train_subset (i # is) v s =
     (let (z_sample, s1) = z_generator gan (batch_size gan) (z_dim gan) s;
          start_idx = i * batch_size gan;
          end_idx = start_idx + batch_size gan;
          test_batch = slice test_images start_idx end_idx;
          train_batch = slice train_subset start_idx end_idx;
          test_d_loss = d_loss gan test_batch z_sample;
          fake = fake_images gan z_sample
      in and_then (first (discriminator_output gan test_batch)) (\<lambda>test_prediction0.
      let v1 = v\<lparr>test_predictions := test_predictions v @ [test_prediction0]\<rparr>;
          v2 = v1\<lparr>test_d_losses := test_d_losses v1 @ [test_d_loss]\<rparr>;
          train_d_loss = d_loss gan train_batch z_sample
      in and_then (first (discriminator_output gan train_batch)) (\<lambda>train_prediction0.
      let v3 = v2\<lparr>train_predictions := train_predictions v2 @ [train_prediction0]\<rparr>;
          v4 = v3\<lparr>train_d_losses := train_d_losses v3 @ [train_d_loss]\<rparr>
      in and_then (first (discriminator_output gan fake)) (\<lambda>fake_prediction.
      batch_loop gan test_images train_subset is
        (v4\<lparr>fake_predictions := fake_predictions v4 @ [fake_prediction]\<rparr>) s1))))"

text \<open>\<open>[train_images[i] for i in idx]\<close>.\<close>

fun index_all :: "'a list \<Rightarrow> nat list \<Rightarrow> error + 'a list" where
  "index_all xs [] = Inr []"
| "index_all xs (i # is) =
     (if i < length xs
      then and_then (index_all xs is) (\<lambda>ys. Inr (xs ! i # ys))
      else Inl IndexError)"

definition discriminator_threshold :: real where
  "discriminator_threshold = 0.5"

text \<open>
  One pass of the loop \<open>for repeat in range(num_repeat)\<close>, lines 265-324.
  \<open>choice a size s\<close> is \<open>np.random.choice(a, size)\<close> run in generator state \<open>s\<close>; numpy
  raises ValueError for \<open>a = 0\<close> unless no sample is taken.
\<close>

definition repeat_body ::
  "(nat \<Rightarrow> nat \<Rightarrow> 's \<Rightarrow> nat list \<times> 's) \<Rightarrow> ('z, 's) gan \<Rightarrow> image list \<Rightarrow> image list \<Rightarrow> nat \<Rightarrow>
   locals \<Rightarrow> 's \<Rightarrow> error + locals \<times> 's" where
  "repeat_body choice gan train_images test_images num_batches v s =
     (if length train_images = 0 \<and> length test_images \<noteq> 0 then Inl ValueError else
      let (idx, s1) = choice (length train_images) (length test_images) s in
      and_then (index_all train_images idx) (\<lambda>train_subset.
      let v1 = v\<lparr>train_predictions := [], test_predictions := [], fake_predictions := [],
                 train_d_losses := [], test_d_losses := []\<rparr>
      in and_then (batch_loop gan test_images train_subset [0..<num_batches] v1 s1) (\<lambda>(v2, s2).
      let train_bools = map (\<lambda>x. np_ge x discriminator_threshold) (train_predictions v2);
          test_bools = map (\<lambda>x. np_ge x discriminator_threshold) (test_predictions v2);
          fake_bools = map (\<lambda>x. np_lt x discriminator_threshold) (fake_predictions v2)
      in and_then (bool_mean train_bools) (\<lambda>train_accuracy.
         and_then (bool_mean test_bools) (\<lambda>test_accuracy.
         and_then (bool_mean fake_bools) (\<lambda>fake_accuracy.
      let train_d_loss = np_mean (train_d_losses v2);
          test_d_loss = np_mean (test_d_losses v2)
      in Inr (v2\<lparr>train_accuracies := train_accuracies v2 @ [train_accuracy],
                 test_accuracies := test_accuracies v2 @ [test_accuracy],
                 fake_accuracies := fake_accuracies v2 @ [fake_accuracy],
                 train_d_losses := train_d_losses v2 @ [train_d_loss],
                 test_d_losses := test_d_losses v2 @ [test_d_loss]\<rparr>, s2)))))))"

fun repeat_loop ::
  "(nat \<Rightarrow> nat \<Rightarrow> 's \<Rightarrow> nat list \<times> 's) \<Rightarrow> ('z, 's) gan \<Rightarrow> image list \<Rightarrow> image list \<Rightarrow> nat \<Rightarrow>
   nat list \<Rightarrow> locals \<Rightarrow> 's \<Rightarrow> error + locals \<times> 's" where
  "repeat_loop choice gan train_images test_images num_batches [] v s = Inr (v, s)"
| "repeat_loop choice gan train_images test_images num_batches (repeat # rs) v s =
     and_then (repeat_body choice gan train_images test_images num_batches v s) (\<lambda>(v', s').
       repeat_loop choice gan train_images test_images num_batches rs v' s')"

definition empty_locals :: locals where
  "empty_locals =
     \<lparr>train_accuracies = [], test_accuracies = [], fake_accuracies = [],
      train_d_losses = [], test_d_losses = [],
      train_predictions = [], test_predictions = [], fake_predictions = []\<rparr>"

text \<open>
  \<open>ComputeAccuracyLoss\<close>, lines 217-332. With \<open>from __future__ import division\<close> the
  quotient \<open>test_images.shape[0] / gan.batch_size\<close> raises ZeroDivisionError for a zero
  batch size; \<open>int(np.floor(n / b))\<close> is \<open>n div b\<close>.
\<close>

definition ComputeAccuracyLoss ::
  "(pyval \<Rightarrow> string \<Rightarrow> image list) \<Rightarrow> (nat \<Rightarrow> nat \<Rightarrow> 's \<Rightarrow> nat list \<times> 's) \<Rightarrow>
   options \<Rightarrow> ('z, 's) gan \<Rightarrow> image list \<Rightarrow> int \<Rightarrow> nat \<Rightarrow> 's \<Rightarrow> error + result_dict \<times> 's" where
  "ComputeAccuracyLoss load_dataset choice options gan test_images max_train_examples num_repeat s =
     (case options ''dataset'' of
        None \<Rightarrow> Inl KeyError
      | Some dataset \<Rightarrow>
      and_then (GetRealImages load_dataset dataset ''train'' max_train_examples False)
        (\<lambda>train_images.
      if length train_images < length test_images then Inl ValueError
      else if batch_size gan = 0 then Inl ZeroDivisionError
      else
        let num_batches = length test_images div batch_size gan in
        and_then (repeat_loop choice gan train_images test_images num_batches [0..<num_repeat]
               empty_locals s) (\<lambda>(v, s').
            Inr (map_of
                  [(''train_accuracy'', np_mean (train_accuracies v)),
                   (''test_accuracy'', np_mean (test_accuracies v)),
                   (''fake_accuracy'', np_mean (fake_accuracies v)),
                   (''train_d_loss'', np_mean (train_d_losses v)),
                   (''test_d_loss'', np_mean (test_d_losses v))], s'))))"

section \<open>Notions used to state the properties of ComputeAccuracyLoss\<close>

text \<open>
  The latent batches drawn by \<open>n\<close> successive calls of \<open>z_generator\<close>, starting in
  generator state \<open>s\<close>.
\<close>

fun z_samples :: "('z, 's) gan \<Rightarrow> nat \<Rightarrow> 's \<Rightarrow> 'z list" where
  "z_samples gan 0 s = []"
| "z_samples gan (Suc n) s =
     (let (z, s1) = z_generator gan (batch_size gan) (z_dim gan) s in z # z_samples gan n s1)"








definition ex_real_image :: image where "ex_real_image = [[[Val 1]]]"
definition ex_fake_image :: image where "ex_fake_image = [[[Val 0]]]"

definition ex_options :: options where
  "ex_options = map_of [(''dataset'', StrV ''mnist''), (''gan_type'', StrV ''GAN'')]"

definition ex_load_dataset :: "pyval \<Rightarrow> string \<Rightarrow> image list" where
  "ex_load_dataset dataset split_name = replicate 3 ex_real_image"

definition ex_choice :: "nat \<Rightarrow> nat \<Rightarrow> nat \<Rightarrow> nat list \<times> nat" where
  "ex_choice a k s = (replicate k 0, Suc s)"

definition ex_gan :: "nat \<Rightarrow> (nat, nat) gan" where
  "ex_gan b =
     \<lparr>batch_size = b, z_dim = 1,
      z_generator = (\<lambda>n d s. (s, Suc s)),
      fake_images = (\<lambda>z. replicate (max b 1) ex_fake_image),
      discriminator_output = map (\<lambda>img. if img = ex_fake_image then Val 0 else Val 1),
      d_loss = (\<lambda>b z. Val (real z))\<rparr>"


text \<open>A discriminator that answers 1.0 for the first example of a batch and 0.0 for the others.\<close>

definition ex_first_gan :: "(nat, nat) gan" where
  "ex_first_gan =
     \<lparr>batch_size = 2, z_dim = 1,
      z_generator = (\<lambda>n d s. (s, Suc s)),
      fake_images = (\<lambda>z. replicate 2 ex_fake_image),
      discriminator_output = (\<lambda>b. case b of [] \<Rightarrow> [] | x # xs \<Rightarrow> Val 1 # map (\<lambda>_. Val 0) xs),
      d_loss = (\<lambda>b z. Val (real z))\<rparr>"



section \<open>Strings: \<open>str\<close> and \<open>"%.3f"\<close>\<close>

definition digit_char :: "nat \<Rightarrow> char" where
  "digit_char d = ''0123456789'' ! d"

text \<open>The decimal digits of a natural number.\<close>

function str_nat :: "nat \<Rightarrow> string" where
  "str_nat n = (if n < 10 then [digit_char n] else str_nat (n div 10) @ [digit_char (n mod 10)])"
  by pat_completeness auto
termination
  by (relation "measure (\<lambda>n. n)") auto

declare str_nat.simps [simp del]

definition str_int :: "int \<Rightarrow> string" where
  "str_int i = (if i < 0 then ''-'' @ str_nat (nat (- i)) else str_nat (nat i))"

text \<open>\<open>str(v)\<close>, which is also what \<open>csv.writer\<close> writes for a value that is not a string.\<close>

fun str :: "pyval \<Rightarrow> string" where
  "str (StrV s) = s"
| "str (IntV i) = str_int i"
| "str (BoolV b) = (if b then ''True'' else ''False'')"

text \<open>Truth value of an option, as in \<open>if options.get(key, False):\<close>.\<close>

fun truthy :: "pyval \<Rightarrow> bool" where
  "truthy (StrV s) = (s \<noteq> [])"
| "truthy (IntV i) = (i \<noteq> 0)"
| "truthy (BoolV b) = b"

definition option_enabled :: "options \<Rightarrow> string \<Rightarrow> bool" where
  "option_enabled options key = (case options key of None \<Rightarrow> False | Some v \<Rightarrow> truthy v)"

text \<open>
  \<open>"%.3f" % x\<close>: the value rounded to three decimals (ties to even on the exact value),
  with at least one digit before the point; the sign is kept when a negative value rounds
  to zero. NaN and the infinities are printed by name.
\<close>

definition round_half_even :: "real \<Rightarrow> int" where
  "round_half_even x =
     (let f = \<lfloor>x\<rfloor>; d = x - of_int f in
      if d < 1 / 2 then f else if 1 / 2 < d then f + 1 else if even f then f else f + 1)"

definition fmt3_real :: "real \<Rightarrow> string" where
  "fmt3_real x =
     (let m = nat (round_half_even (\<bar>x\<bar> * 1000)) in
      (if x < 0 then ''-'' else []) @ str_nat (m div 1000) @ ''.'' @
      [digit_char (m mod 1000 div 100), digit_char (m mod 100 div 10), digit_char (m mod 10)])"

fun fmt3 :: "npfloat \<Rightarrow> string" where
  "fmt3 (Val x) = fmt3_real x"
| "fmt3 PInf = ''inf''"
| "fmt3 NInf = ''-inf''"
| "fmt3 NaN = ''nan''"

text \<open>\<open>sorted(s)\<close> for a set of strings \<open>s\<close>, given by its elements.\<close>

definition sorted_set :: "string list \<Rightarrow> string list" where
  "sorted_set xs = sorted_list_of_set (set xs)"

section \<open>Evaluation tasks\<close>

text \<open>
  An \<open>EvalTask\<close>: the metric names it declares and its two hooks. A hook may draw random
  numbers (it gets and returns the generator state) and may raise.
\<close>

record ('z, 's) task =
  MetricsList :: "string list"
  RunInSession ::
    "options \<Rightarrow> ('z, 's) gan \<Rightarrow> image list \<Rightarrow> 's \<Rightarrow> error + result_dict \<times> 's"
  RunAfterSession ::
    "options \<Rightarrow> image list \<Rightarrow> image list \<Rightarrow> 's \<Rightarrow> error + result_dict \<times> 's"

text \<open>
  The collaborators outside the evaluated file: the dataset and parameter modules, numpy's
  random generator, model construction and restoring, the checkpoint directory, and the
  metric libraries. \<open>python3\<close> tells whether comparing \<open>None\<close> with a string raises
  TypeError (Python 3) or orders \<open>None\<close> first (Python 2).
\<close>

record ('z, 's) collaborators =
  load_dataset :: "pyval \<Rightarrow> string \<Rightarrow> image list"
  random_choice :: "nat \<Rightarrow> nat \<Rightarrow> 's \<Rightarrow> nat list \<times> 's"
  random_seed :: "nat \<Rightarrow> 's"
  GetDatasetParameters :: "pyval \<Rightarrow> options"
  GetParameters :: "string \<Rightarrow> string \<Rightarrow> string list"
  MODELS_WITH_PENALTIES :: "string list"
  GAN_WITH_PENALTY :: string
  create_gan :: "pyval \<Rightarrow> pyval \<Rightarrow> options \<Rightarrow> string \<Rightarrow> error + ('z, 's) gan"
  get_checkpoint_state :: "string list option"
  inception_score_fn :: "image list \<Rightarrow> 's \<Rightarrow> error + npfloat \<times> 's"
  get_fid_function :: "image list \<Rightarrow> image list \<Rightarrow> 's \<Rightarrow> error + npfloat \<times> 's"
  get_kid_function :: "image list \<Rightarrow> image list \<Rightarrow> 's \<Rightarrow> error + npfloat \<times> 's"
  ms_ssim_score :: "image list \<Rightarrow> 's \<Rightarrow> error + npfloat \<times> 's"
  fractal_dimension_slope :: "image list \<Rightarrow> 's \<Rightarrow> error + npfloat \<times> 's"
  TrainGILBO :: "('z, 's) gan \<Rightarrow> options \<Rightarrow> 's \<Rightarrow> error + (npfloat \<times> npfloat \<times> npfloat \<times> npfloat) \<times> 's"
  condition_number_stats :: "('z, 's) gan \<Rightarrow> 's \<Rightarrow> error + (npfloat \<times> npfloat \<times> npfloat) \<times> 's"
  python3 :: bool

text \<open>
  The shape of a population: the number of images, then height, width and channels read
  off the first image, row and pixel. \<open>np.array([])\<close> has shape \<open>(0,)\<close>.
\<close>

definition image_shape :: "image \<Rightarrow> nat list" where
  "image_shape img =
     [length img,
      (case img of [] \<Rightarrow> 0 | row # _ \<Rightarrow> length row),
      (case img of [] \<Rightarrow> 0 | row # _ \<Rightarrow> (case row of [] \<Rightarrow> 0 | px # _ \<Rightarrow> length px))]"

definition shape :: "image list \<Rightarrow> nat list" where
  "shape xs = (case xs of [] \<Rightarrow> [0] | img # _ \<Rightarrow> length xs # image_shape img)"

text \<open>\<open>a.shape[3]\<close>.\<close>

definition shape3 :: "image list \<Rightarrow> error + nat" where
  "shape3 xs = (if 3 < length (shape xs) then Inr (shape xs ! 3) else Inl IndexError)"

text \<open>The metric functions of the file: their assertions, then the library call.\<close>

definition GetInceptionScore ::
  "('z, 's) collaborators \<Rightarrow> image list \<Rightarrow> 's \<Rightarrow> error + npfloat \<times> 's" where
  "GetInceptionScore env fake s =
     and_then (shape3 fake) (\<lambda>c.
       if c \<noteq> 3 then Inl AssertionError
       else if int (length fake) mod INCEPTION_BATCH \<noteq> 0 then Inl AssertionError
       else inception_score_fn env fake s)"

definition batch_asserts :: "image list \<Rightarrow> image list \<Rightarrow> error + unit" where
  "batch_asserts fake real_images =
     and_then (shape3 fake) (\<lambda>cf.
       if cf \<noteq> 3 then Inl AssertionError else
       and_then (shape3 real_images) (\<lambda>cr.
         if cr \<noteq> 3 then Inl AssertionError
         else if int (length real_images) mod INCEPTION_BATCH \<noteq> 0 then Inl AssertionError
         else if int (length fake) mod INCEPTION_BATCH \<noteq> 0 then Inl AssertionError
         else if length real_images < length fake then Inl AssertionError
         else if length fake = 0 then Inl ZeroDivisionError
         else if length real_images mod length fake \<noteq> 0 then Inl AssertionError
         else Inr ()))"

definition ComputeKIDScore ::
  "('z, 's) collaborators \<Rightarrow> image list \<Rightarrow> image list \<Rightarrow> 's \<Rightarrow> error + npfloat \<times> 's" where
  "ComputeKIDScore env fake real_images s =
     and_then (batch_asserts fake real_images) (\<lambda>_. get_kid_function env fake real_images s)"

definition ComputeTFGanFIDScore ::
  "('z, 's) collaborators \<Rightarrow> image list \<Rightarrow> image list \<Rightarrow> 's \<Rightarrow> error + npfloat \<times> 's" where
  "ComputeTFGanFIDScore env fake real_images s =
     and_then (batch_asserts fake real_images) (\<lambda>_. get_fid_function env fake real_images s)"

definition ShouldRunAccuracyLossTrainVsTest :: "('z, 's) collaborators \<Rightarrow> options \<Rightarrow> error + bool" where
  "ShouldRunAccuracyLossTrainVsTest env options =
     (case options ''gan_type'' of
        None \<Rightarrow> Inl KeyError
      | Some g \<Rightarrow> Inr (g = StrV (GAN_WITH_PENALTY env)))"

definition ShouldRunMultiscaleSSIM :: "options \<Rightarrow> error + bool" where
  "ShouldRunMultiscaleSSIM options =
     (case options ''dataset'' of
        None \<Rightarrow> Inl KeyError
      | Some d \<Rightarrow> Inr (d \<in> set [StrV ''celeba'', StrV ''celebahq128'']))"

definition ComputeFractalDimension ::
  "('z, 's) collaborators \<Rightarrow> image list \<Rightarrow> 's \<Rightarrow> error + npfloat \<times> 's" where
  "ComputeFractalDimension env fake s =
     (if length fake < 100 then Inl AssertionError else fractal_dimension_slope env fake s)"

text \<open>A hook that is not overridden returns the empty dictionary.\<close>

definition no_session_hook ::
  "options \<Rightarrow> ('z, 's) gan \<Rightarrow> image list \<Rightarrow> 's \<Rightarrow> error + result_dict \<times> 's" where
  "no_session_hook options gan real_images s = Inr (Map.empty, s)"

definition no_after_hook ::
  "options \<Rightarrow> image list \<Rightarrow> image list \<Rightarrow> 's \<Rightarrow> error + result_dict \<times> 's" where
  "no_after_hook options fake real_images s = Inr (Map.empty, s)"

definition single_metric :: "string \<Rightarrow> error + npfloat \<times> 's \<Rightarrow> error + result_dict \<times> 's" where
  "single_metric name r = and_then r (\<lambda>(x, s). Inr (map_of [(name, x)], s))"

definition InceptionScoreTask :: "('z, 's) collaborators \<Rightarrow> ('z, 's) task" where
  "InceptionScoreTask env =
     \<lparr>MetricsList = [''inception_score''],
      RunInSession = no_session_hook,
      RunAfterSession = (\<lambda>options fake real_images s.
        single_metric ''inception_score'' (GetInceptionScore env fake s))\<rparr>"

definition FIDScoreTask :: "('z, 's) collaborators \<Rightarrow> ('z, 's) task" where
  "FIDScoreTask env =
     \<lparr>MetricsList = [''fid_score''],
      RunInSession = no_session_hook,
      RunAfterSession = (\<lambda>options fake real_images s.
        single_metric ''fid_score'' (ComputeTFGanFIDScore env fake real_images s))\<rparr>"

definition KIDScoreTask :: "('z, 's) collaborators \<Rightarrow> ('z, 's) task" where
  "KIDScoreTask env =
     \<lparr>MetricsList = [''kid_score''],
      RunInSession = no_session_hook,
      RunAfterSession = (\<lambda>options fake real_images s.
        if option_enabled options ''compute_kid_score''
        then single_metric ''kid_score'' (ComputeKIDScore env fake real_images s)
        else Inr (Map.empty, s))\<rparr>"

definition MultiscaleSSIMTask :: "('z, 's) collaborators \<Rightarrow> ('z, 's) task" where
  "MultiscaleSSIMTask env =
     \<lparr>MetricsList = [''ms_ssim''],
      RunInSession = no_session_hook,
      RunAfterSession = (\<lambda>options fake real_images s.
        and_then (ShouldRunMultiscaleSSIM options) (\<lambda>run.
          if run then single_metric ''ms_ssim'' (ms_ssim_score env fake s)
          else Inr (Map.empty, s)))\<rparr>"

definition FractalDimensionTask :: "('z, 's) collaborators \<Rightarrow> ('z, 's) task" where
  "FractalDimensionTask env =
     \<lparr>MetricsList = [''fractal_dimension''],
      RunInSession = no_session_hook,
      RunAfterSession = (\<lambda>options fake real_images s.
        if option_enabled options ''compute_fractal_dimension''
        then single_metric ''fractal_dimension'' (ComputeFractalDimension env fake s)
        else Inr (Map.empty, s))\<rparr>"

definition ComputeAccuracyTask :: "('z, 's) collaborators \<Rightarrow> ('z, 's) task" where
  "ComputeAccuracyTask env =
     \<lparr>MetricsList = [''train_accuracy'', ''test_accuracy'', ''fake_accuracy'', ''train_d_loss'',
                     ''test_d_loss''],
      RunInSession = (\<lambda>options gan real_images s.
        and_then (ShouldRunAccuracyLossTrainVsTest env options) (\<lambda>run.
          if run
          then ComputeAccuracyLoss (load_dataset env) (random_choice env) options gan real_images
                 50000 5 s
          else Inr (Map.empty, s))),
      RunAfterSession = no_after_hook\<rparr>"

definition GILBOTask :: "('z, 's) collaborators \<Rightarrow> ('z, 's) task" where
  "GILBOTask env =
     \<lparr>MetricsList = [''gilbo'', ''gilbo_train_consistency'', ''gilbo_eval_consistency'',
                     ''gilbo_self_consistency''],
      RunInSession = (\<lambda>options gan real_images s.
        if option_enabled options ''compute_gilbo''
        then and_then (TrainGILBO env gan options s) (\<lambda>((g, gt, ge, gs), s').
               Inr (map_of [(''gilbo'', g), (''gilbo_train_consistency'', gt),
                            (''gilbo_eval_consistency'', ge),
                            (''gilbo_self_consistency'', gs)], s'))
        else Inr (Map.empty, s)),
      RunAfterSession = no_after_hook\<rparr>"

definition GeneratorConditionNumberTask :: "('z, 's) collaborators \<Rightarrow> ('z, 's) task" where
  "GeneratorConditionNumberTask env =
     \<lparr>MetricsList = [''log_condition_number_count'', ''log_condition_number_mean'',
                     ''log_condition_number_std''],
      RunInSession = (\<lambda>options gan real_images s.
        if option_enabled options ''compute_generator_condition_number''
        then and_then (condition_number_stats env gan s) (\<lambda>((n, m, sd), s').
               Inr (map_of [(''log_condition_number_count'', n),
                            (''log_condition_number_mean'', m),
                            (''log_condition_number_std'', sd)], s'))
        else Inr (Map.empty, s)),
      RunAfterSession = no_after_hook\<rparr>"

text \<open>The list built at lines 821-830.\<close>

definition tasks_to_run :: "('z, 's) collaborators \<Rightarrow> ('z, 's) task list" where
  "tasks_to_run env =
     [InceptionScoreTask env, FIDScoreTask env, MultiscaleSSIMTask env, ComputeAccuracyTask env,
      FractalDimensionTask env, KIDScoreTask env, GeneratorConditionNumberTask env,
      GILBOTask env]"

section \<open>RunCheckpointEval\<close>

definition SUPPORTED_GANS :: "('z, 's) collaborators \<Rightarrow> string list" where
  "SUPPORTED_GANS env =
     [''GAN'', ''GAN_MINMAX'', ''WGAN'', ''WGAN_GP'', ''DRAGAN'', ''LSGAN'', ''VAE'', ''BEGAN'']
     @ MODELS_WITH_PENALTIES env"

text \<open>\<open>np.isnan(x).any()\<close> on a batch.\<close>

definition any_isnan :: "image list \<Rightarrow> bool" where
  "any_isnan x = list_ex (list_ex (list_ex (list_ex isnan))) x"

text \<open>
  Lines 730-734: the number of test examples, from the dataset parameters updated with the
  options, made a multiple of the Inception batch size. A string there makes \<open>%\<close> raise.
\<close>

definition num_test_examples_of :: "('z, 's) collaborators \<Rightarrow> pyval \<Rightarrow> options \<Rightarrow> error + int" where
  "num_test_examples_of env dataset options =
     (let dataset_params = GetDatasetParameters env dataset ++ options in
      case (case dataset_params ''eval_test_samples'' of None \<Rightarrow> IntV 10000 | Some v \<Rightarrow> v) of
        StrV _ \<Rightarrow> Inl TypeError
      | BoolV b \<Rightarrow> Inr ((if b then 1 else 0) - (if b then 1 else 0) mod INCEPTION_BATCH)
      | IntV n \<Rightarrow>
          Inr (if n mod INCEPTION_BATCH \<noteq> 0 then n - n mod INCEPTION_BATCH else n))"

text \<open>
  The loop of lines 766-774, run \<open>n\<close> times: sample a latent batch, generate a batch, raise
  on a NaN, else keep the whole batch.
\<close>

fun generate_samples ::
  "('z, 's) gan \<Rightarrow> nat \<Rightarrow> image list list \<Rightarrow> 's \<Rightarrow> error + image list list \<times> 's" where
  "generate_samples gan 0 samples s = Inr (samples, s)"
| "generate_samples gan (Suc n) samples s =
     (let (z_sample, s1) = z_generator gan (batch_size gan) (z_dim gan) s;
          x = fake_images gan z_sample
      in if any_isnan x then Inl NanFoundError
         else generate_samples gan n (samples @ [x]) s1)"

text \<open>The two loops over the tasks, lines 777-778 and 798-799; \<open>update\<close> is \<open>++\<close>.\<close>

fun run_in_session ::
  "('z, 's) task list \<Rightarrow> options \<Rightarrow> ('z, 's) gan \<Rightarrow> image list \<Rightarrow> result_dict \<Rightarrow> 's \<Rightarrow>
   error + result_dict \<times> 's" where
  "run_in_session [] options gan real_images result_dict s = Inr (result_dict, s)"
| "run_in_session (t # ts) options gan real_images result_dict s =
     and_then (RunInSession t options gan real_images s) (\<lambda>(r, s1).
       run_in_session ts options gan real_images (result_dict ++ r) s1)"

fun run_after_session ::
  "('z, 's) task list \<Rightarrow> options \<Rightarrow> image list \<Rightarrow> image list \<Rightarrow> result_dict \<Rightarrow> 's \<Rightarrow>
   error + result_dict \<times> 's" where
  "run_after_session [] options fake real_images result_dict s = Inr (result_dict, s)"
| "run_after_session (t # ts) options fake real_images result_dict s =
     and_then (RunAfterSession t options fake real_images s) (\<lambda>(r, s1).
       run_after_session ts options fake real_images (result_dict ++ r) s1)"

text \<open>\<open>np.concatenate(samples, axis=0)\<close> needs at least one array.\<close>

definition np_concatenate :: "image list list \<Rightarrow> error + image list" where
  "np_concatenate samples = (if samples = [] then Inl ValueError else Inr (concat samples))"

text \<open>\<open>np.tile(a, [1, 1, 1, 3])\<close>: every pixel's channels three times over.\<close>

definition tile3 :: "image list \<Rightarrow> image list" where
  "tile3 = map (map (map (\<lambda>px. px @ px @ px)))"

text \<open>
  Lines 780-793: concatenate and truncate the generated batches, compare the shapes,
  bring one-channel populations to three channels, rescale the fake images.
\<close>

definition materialize :: "image list list \<Rightarrow> int \<Rightarrow> image list \<Rightarrow> error + image list \<times> image list" where
  "materialize samples num_test_examples real_images =
     and_then (np_concatenate samples) (\<lambda>all_fake.
       let fake = take (nat num_test_examples) all_fake in
       if shape fake \<noteq> shape real_images then Inl AssertionError
       else and_then (shape3 fake) (\<lambda>c.
         let fake1 = (if c = 1 then tile3 fake else fake);
             real1 = (if c = 1 then tile3 real_images else real_images)
         in Inr (scale_images 255.0 fake1, real1)))"

text \<open>
  \<open>RunCheckpointEval\<close> up to the call of the \<open>RunAfterSession\<close> hooks (lines 717-796): the
  number of test examples, the two populations the hooks receive, the results of the
  in-session hooks and the generator state. \<open>int(np.ceil(n / b))\<close> raises for \<open>b = 0\<close>.
\<close>

definition BuildPopulations ::
  "('z, 's) collaborators \<Rightarrow> string \<Rightarrow> options \<Rightarrow> ('z, 's) task list \<Rightarrow>
   error + int \<times> image list \<times> image list \<times> result_dict \<times> 's" where
  "BuildPopulations env checkpoint_path options tasks =
     (let s0 = random_seed env 42 in
      and_then (getitem options ''gan_type'') (\<lambda>gan_type.
      if gan_type \<notin> set (map StrV (SUPPORTED_GANS env)) then Inl ValueError else
      and_then (getitem options ''dataset'') (\<lambda>dataset.
      and_then (num_test_examples_of env dataset options) (\<lambda>num_test_examples.
      and_then (GetRealImages (load_dataset env) dataset ''test'' num_test_examples True)
        (\<lambda>real_images.
      and_then (create_gan env gan_type dataset options checkpoint_path) (\<lambda>gan.
      if batch_size gan = 0 then Inl ZeroDivisionError else
      let num_batches = nat \<lceil>real_of_int num_test_examples / real (batch_size gan)\<rceil> in
      and_then (generate_samples gan num_batches [] s0) (\<lambda>(samples, s1).
      and_then (run_in_session tasks options gan real_images Map.empty s1) (\<lambda>(result_dict, s2).
      and_then (materialize samples num_test_examples real_images) (\<lambda>(fake, real').
        Inr (num_test_examples, fake, real', result_dict, s2))))))))))"

definition RunCheckpointEval ::
  "('z, 's) collaborators \<Rightarrow> string \<Rightarrow> options \<Rightarrow> ('z, 's) task list \<Rightarrow> error + result_dict" where
  "RunCheckpointEval env checkpoint_path options tasks =
     and_then (BuildPopulations env checkpoint_path options tasks)
       (\<lambda>(num_test_examples, fake, real', result_dict, s).
     and_then (run_after_session tasks options fake real' result_dict s) (\<lambda>(result_dict', s').
       Inr result_dict'))"

section \<open>RunTaskEval\<close>

text \<open>
  The score file as the \<open>csv\<close> module sees it: a list of records, each a list of fields
  (quoting and line ends are the module's business). \<open>None\<close> is a file that does not
  exist.
\<close>

type_synonym csv_file = "string list list"

definition DEFAULT_VALUES :: "string \<rightharpoonup> string" where
  "DEFAULT_VALUES =
     map_of [(''weight_clipping'', ''-1.0''), (''y_dim'', ''-1''), (''lambda'', ''-1.0''),
             (''disc_iters'', ''-1''), (''beta1'', ''-1.0''), (''beta2'', ''-1.0''),
             (''gamma'', ''-1.0''), (''penalty_type'', ''none''),
             (''discriminator_spectralnorm'', ''False''), (''architecture'', ''unknown'')]"

definition GetAllTrainingParams :: "('z, 's) collaborators \<Rightarrow> string list" where
  "GetAllTrainingParams env =
     sorted_set (''architecture'' #
       concat (map (\<lambda>gan_type. GetParameters env gan_type ''wide'') (SUPPORTED_GANS env)))"

definition fixed_columns :: "string list" where
  "fixed_columns = [''checkpoint_path'', ''model'', ''dataset'', ''tf_seed'', ''sample_id'']"

definition task_headers :: "('z, 's) task list \<Rightarrow> string list" where
  "task_headers tasks = concat (map (\<lambda>t. sorted_set (MetricsList t)) tasks)"

definition csv_header :: "('z, 's) collaborators \<Rightarrow> string list" where
  "csv_header env = fixed_columns @ task_headers (tasks_to_run env) @ GetAllTrainingParams env"

text \<open>
  \<open>csv.DictReader\<close>: the first record gives the field names; empty records are skipped. A
  row is the dictionary \<open>dict(zip(fieldnames, row))\<close>; a longer row has its rest under the
  key \<open>None\<close>, a shorter one has \<open>None\<close> as the value of the missing fields.
\<close>

definition row_keys :: "string list \<Rightarrow> string list \<Rightarrow> string option list" where
  "row_keys fieldnames row =
     remdups (map Some fieldnames) @ (if length fieldnames < length row then [None] else [])"

definition row_value :: "string list \<Rightarrow> string list \<Rightarrow> string \<Rightarrow> string option option" where
  "row_value fieldnames row key =
     map_of (rev (zip fieldnames
       (map Some row @ replicate (length fieldnames - length row) None))) key"

text \<open>
  The loop of lines 860-863 over the data rows. \<open>ValueError\<close> is the schema mismatch;
  under Python 3 sorting the keys of a row that is too long raises \<open>TypeError\<close>.
\<close>

fun read_finished ::
  "bool \<Rightarrow> string list \<Rightarrow> string list \<Rightarrow> string list list \<Rightarrow> string option set \<Rightarrow>
   error + string option set" where
  "read_finished py3 header fieldnames [] finished = Inr finished"
| "read_finished py3 header fieldnames (row # rows) finished =
     (let keys = row_keys fieldnames row in
      if py3 \<and> None \<in> set keys \<and> 2 \<le> length keys then Inl TypeError
      else if sort (map Some header) \<noteq> sort keys then Inl ValueError
      else case row_value fieldnames row ''checkpoint_path'' of
             None \<Rightarrow> Inl KeyError
           | Some v \<Rightarrow> read_finished py3 header fieldnames rows (insert v finished))"

definition finished_checkpoints ::
  "bool \<Rightarrow> string list \<Rightarrow> csv_file \<Rightarrow> error + string option set" where
  "finished_checkpoints py3 header file =
     (case file of
        [] \<Rightarrow> Inr {}
      | fieldnames # rows \<Rightarrow>
          read_finished py3 header fieldnames (filter (\<lambda>row. row \<noteq> []) rows) {})"

text \<open>The hyperparameter columns of a row, lines 906-910.\<close>

fun param_columns :: "options \<Rightarrow> string list \<Rightarrow> error + string list" where
  "param_columns options [] = Inr []"
| "param_columns options (param # ps) =
     and_then
       (case options param of
          Some v \<Rightarrow> Inr (str v)
        | None \<Rightarrow> (case DEFAULT_VALUES param of None \<Rightarrow> Inl KeyError | Some d \<Rightarrow> Inr d))
       (\<lambda>c. and_then (param_columns options ps) (\<lambda>cs. Inr (c # cs)))"

definition metric_columns :: "string list \<Rightarrow> result_dict \<Rightarrow> npfloat \<Rightarrow> string list" where
  "metric_columns headers result_dict default_value =
     map (\<lambda>task_metric.
            fmt3 (case result_dict task_metric of None \<Rightarrow> default_value | Some x \<Rightarrow> x))
       headers"

text \<open>The row of lines 896-910.\<close>

definition output_row ::
  "options \<Rightarrow> string list \<Rightarrow> string list \<Rightarrow> string \<Rightarrow> result_dict \<Rightarrow> npfloat \<Rightarrow>
   error + string list" where
  "output_row options headers train_params checkpoint_path result_dict default_value =
     (let tf_seed = str (case options ''tf_seed'' of None \<Rightarrow> IntV (- 1) | Some v \<Rightarrow> v);
          sample_id = str (case options ''sample_id'' of None \<Rightarrow> IntV (- 1) | Some v \<Rightarrow> v)
      in and_then (getitem options ''gan_type'') (\<lambda>gan_type.
         and_then (getitem options ''dataset'') (\<lambda>dataset.
         and_then (param_columns options train_params) (\<lambda>params.
           Inr ([checkpoint_path, str gan_type, str dataset, tf_seed, sample_id]
                @ metric_columns headers result_dict default_value @ params)))))"

text \<open>
  The state of a sweep: the score file, and (for stating what was evaluated) the
  checkpoints \<open>RunCheckpointEval\<close> was called on, in order.
\<close>

record sweep_state =
  scores :: csv_file
  evaluated :: "string list"

text \<open>
  The loop of lines 879-913. An exception other than \<open>NanFoundError\<close> ends the sweep; the
  rows written before it stay in the file. The result is the exception, if any, and the
  final state.
\<close>

fun sweep_loop ::
  "(string \<Rightarrow> error + result_dict) \<Rightarrow> options \<Rightarrow> string list \<Rightarrow> string list \<Rightarrow>
   string option set \<Rightarrow> string list \<Rightarrow> sweep_state \<Rightarrow> error option \<times> sweep_state" where
  "sweep_loop eval options headers train_params finished [] st = (None, st)"
| "sweep_loop eval options headers train_params finished (checkpoint_path # rest) st =
     (if Some checkpoint_path \<in> finished
      then sweep_loop eval options headers train_params finished rest st
      else
        let st1 = st\<lparr>evaluated := evaluated st @ [checkpoint_path]\<rparr> in
        case (case eval checkpoint_path of
                Inr result_dict \<Rightarrow> Inr (result_dict, Val (- 1.0))
              | Inl NanFoundError \<Rightarrow> Inr (Map.empty, NAN_DETECTED)
              | Inl e \<Rightarrow> Inl e) of
          Inl e \<Rightarrow> (Some e, st1)
        | Inr (result_dict, default_value) \<Rightarrow>
            (case output_row options headers train_params checkpoint_path result_dict
                    default_value of
               Inl e \<Rightarrow> (Some e, st1)
             | Inr row \<Rightarrow>
                 sweep_loop eval options headers train_params finished rest
                   (st1\<lparr>scores := scores st1 @ [row]\<rparr>)))"

text \<open>
  \<open>RunTaskEval\<close> from the header on (lines 832-913), for a given evaluation function and
  list of checkpoints; \<open>None\<close> for the checkpoints is a missing checkpoint state.
\<close>

definition sweep ::
  "bool \<Rightarrow> string list \<Rightarrow> string list \<Rightarrow> string list \<Rightarrow> (string \<Rightarrow> error + result_dict) \<Rightarrow>
   options \<Rightarrow> string list option \<Rightarrow> csv_file option \<Rightarrow> error option \<times> csv_file option \<times> string list" where
  "sweep py3 header headers train_params eval options checkpoints file =
     (let file1 = (case file of None \<Rightarrow> [header] | Some f \<Rightarrow> f) in
      case (case finished_checkpoints py3 header file1 of
              Inr finished \<Rightarrow> Inr (finished, file1)
            | Inl ValueError \<Rightarrow> Inr ({}, [header])
            | Inl e \<Rightarrow> Inl e) of
        Inl e \<Rightarrow> (Some e, Some file1, [])
      | Inr (finished, file2) \<Rightarrow>
          (case checkpoints of
             None \<Rightarrow> (Some AttributeError, Some file2, [])
           | Some all_checkpoint_paths \<Rightarrow>
               (case sweep_loop eval options headers train_params finished all_checkpoint_paths
                       \<lparr>scores = file2, evaluated = []\<rparr> of
                  (r, st) \<Rightarrow> (r, Some (scores st), evaluated st))))"

definition RunTaskEval ::
  "('z, 's) collaborators \<Rightarrow> options \<Rightarrow> csv_file option \<Rightarrow>
   error option \<times> csv_file option \<times> string list" where
  "RunTaskEval env options file =
     (case options ''dataset'' of
        None \<Rightarrow> (Some KeyError, file, [])
      | Some _ \<Rightarrow>
          sweep (python3 env) (csv_header env) (task_headers (tasks_to_run env))
            (GetAllTrainingParams env)
            (\<lambda>checkpoint_path. RunCheckpointEval env checkpoint_path options (tasks_to_run env))
            options (get_checkpoint_state env) file)"

section \<open>A small concrete run\<close>

text \<open>
  Collaborators for concrete runs, for a Python version and a list of checkpoints: 60
  one-pixel, one-channel test images, 70 requested test examples, a model of batch size 40
  whose generated pixels depend on the checkpoint (\<open>ckpt-nan\<close> generates NaN,
  \<open>ckpt-inf\<close> an infinity), constant metric libraries.
\<close>

definition ex_checkpoint_gan :: "string \<Rightarrow> (nat, nat) gan" where
  "ex_checkpoint_gan c =
     \<lparr>batch_size = 40, z_dim = 1,
      z_generator = (\<lambda>n d s. (s, Suc s)),
      fake_images = (\<lambda>z. replicate 40
        [[[if c = ''ckpt-nan'' then NaN else if c = ''ckpt-inf'' then PInf else Val (1 / 2)]]]),
      discriminator_output = map (\<lambda>img. Val 1),
      d_loss = (\<lambda>b z. Val 0)\<rparr>"

definition ex_env :: "bool \<Rightarrow> string list \<Rightarrow> (nat, nat) collaborators" where
  "ex_env py3 checkpoints =
     \<lparr>load_dataset = (\<lambda>dataset split_name. replicate 60 ex_real_image),
      random_choice = ex_choice,
      random_seed = (\<lambda>n. n),
      GetDatasetParameters = (\<lambda>dataset. map_of [(''eval_test_samples'', IntV 70)]),
      GetParameters = (\<lambda>gan_type architecture. [''lambda'', ''beta1'']),
      MODELS_WITH_PENALTIES = [''GAN_PENALTY'', ''WGAN_PENALTY'', ''LSGAN_PENALTY''],
      GAN_WITH_PENALTY = ''GAN_PENALTY'',
      create_gan = (\<lambda>gan_type dataset options checkpoint_path.
        Inr (ex_checkpoint_gan checkpoint_path)),
      get_checkpoint_state = Some checkpoints,
      inception_score_fn = (\<lambda>fake s. Inr (Val (3 / 2), s)),
      get_fid_function = (\<lambda>fake real_images s. Inr (Val 12.3456, s)),
      get_kid_function = (\<lambda>fake real_images s. Inr (Val 0, s)),
      ms_ssim_score = (\<lambda>fake s. Inr (Val 0, s)),
      fractal_dimension_slope = (\<lambda>fake s. Inr (Val 2, s)),
      TrainGILBO = (\<lambda>gan options s. Inr ((Val 0, Val 0, Val 0, Val 0), s)),
      condition_number_stats = (\<lambda>gan s. Inr ((Val 0, Val 0, Val 0), s)),
      python3 = py3\<rparr>"

definition ex_pixel :: "string \<Rightarrow> npfloat" where
  "ex_pixel c = (if c = ''ckpt-nan'' then NaN else if c = ''ckpt-inf'' then PInf else Val (1 / 2))"

text \<open>The metrics of a checkpoint that evaluates, and the rows of the concrete runs.\<close>

definition ex_result :: result_dict where
  "ex_result = map_of [(''inception_score'', Val (3 / 2)), (''fid_score'', Val 12.3456)]"

definition ex_metrics :: "string list" where
  "ex_metrics = [''1.500'', ''12.346''] @ replicate 15 ''-1.000''"

definition ex_row :: "string \<Rightarrow> string list \<Rightarrow> string list" where
  "ex_row c metrics = [c, ''GAN'', ''mnist'', ''-1'', ''-1''] @ metrics @ [''unknown'', ''-1.0'', ''-1.0'']"

text \<open>
  The same collaborators with a model whose generated pixels depend on the latent batch:
  with the generator seeded at 42 the first batch has pixels 0.42, the second 0.43.
\<close>

definition ex_seq_gan :: "(nat, nat) gan" where
  "ex_seq_gan =
     \<lparr>batch_size = 40, z_dim = 1,
      z_generator = (\<lambda>n d s. (s, Suc s)),
      fake_images = (\<lambda>z. replicate 40 [[[Val (real z / 100)]]]),
      discriminator_output = map (\<lambda>img. Val 1),
      d_loss = (\<lambda>b z. Val 0)\<rparr>"

definition ex_seq_env :: "(nat, nat) collaborators" where
  "ex_seq_env =
     (ex_env True [])\<lparr>create_gan := (\<lambda>gan_type dataset options checkpoint_path. Inr ex_seq_gan)\<rparr>"

section \<open>Fixed-point strings\<close>

text \<open>
  A string is a fixed-point number with three decimals: an optional minus sign, at least
  one digit, a point, three digits.
\<close>

definition is_digit :: "char \<Rightarrow> bool" where
  "is_digit c \<longleftrightarrow> c \<in> set ''0123456789''"

definition fixed_point3 :: "string \<Rightarrow> bool" where
  "fixed_point3 s \<longleftrightarrow>
     (let t = (case s of [] \<Rightarrow> [] | c # r \<Rightarrow> if c = CHR ''-'' then r else s) in
      5 \<le> length t \<and> t ! (length t - 4) = CHR ''.'' \<and>
      list_all is_digit (take (length t - 4) t) \<and> list_all is_digit (drop (length t - 3) t))"

section \<open>Sequencing and the accuracy loops\<close>

lemma and_then_Inl [simp]: "and_then (Inl e) f = Inl e"
  by (simp add: and_then_def)

lemma and_then_Inr [simp]: "and_then (Inr x) f = f x"
  by (simp add: and_then_def)

lemma and_then_eq_Inr: "and_then m f = Inr y \<longleftrightarrow> (\<exists>x. m = Inr x \<and> f x = Inr y)"
  by (cases m) simp_all

lemma first_eq_Inr: "first xs = Inr x \<longleftrightarrow> (\<exists>ys. xs = x # ys)"
  by (cases xs) (auto simp: first_def)

lemma batch_loop_records:
  assumes "batch_loop gan test_images train_subset is v s = Inr (v', s')"
  shows "map Inr (test_predictions v') =
           map Inr (test_predictions v) @
           map (\<lambda>i. first (discriminator_output gan
                  (slice test_images (i * batch_size gan) (i * batch_size gan + batch_size gan)))) is
       \<and> map Inr (train_predictions v') =
           map Inr (train_predictions v) @
           map (\<lambda>i. first (discriminator_output gan
                  (slice train_subset (i * batch_size gan) (i * batch_size gan + batch_size gan)))) is
       \<and> map Inr (fake_predictions v') =
           map Inr (fake_predictions v) @
           map (\<lambda>z. first (discriminator_output gan (fake_images gan z)))
             (z_samples gan (length is) s)
       \<and> train_accuracies v' = train_accuracies v
       \<and> test_accuracies v' = test_accuracies v
       \<and> fake_accuracies v' = fake_accuracies v"
  using assms
proof (induction "is" arbitrary: v s)
  case Nil
  then show ?case by simp
next
  case (Cons i "is")
  obtain z s1 where z: "z_generator gan (batch_size gan) (z_dim gan) s = (z, s1)"
    by (cases "z_generator gan (batch_size gan) (z_dim gan) s")
  from Cons.prems z show ?case
    apply (simp add: Let_def and_then_eq_Inr)
    apply (elim exE conjE)
    apply (drule Cons.IH)
    apply simp
    done
qed

lemma index_all_eq_Inr:
  "index_all xs is = Inr ys \<longleftrightarrow> (\<forall>i\<in>set is. i < length xs) \<and> ys = map ((!) xs) is"
  by (induction "is" arbitrary: ys) (auto simp: and_then_eq_Inr)

lemma map_Inr_eq_nth:
  assumes "map Inr ps = map f [0..<n]"
  shows "length ps = n \<and> (\<forall>i<n. f i = Inr (ps ! i))"
proof -
  have len: "length ps = n"
    using arg_cong [OF assms, of length] by simp
  have "\<forall>i<n. f i = Inr (ps ! i)"
  proof (intro allI impI)
    fix i assume "i < n"
    then have "map Inr ps ! i = map f [0..<n] ! i" using assms by simp
    with \<open>i < n\<close> len show "f i = Inr (ps ! i)" by simp
  qed
  with len show ?thesis by simp
qed

lemma map_Inr_eq_nth2:
  assumes "map Inr ps = map f zs"
  shows "length ps = length zs \<and> (\<forall>i<length zs. f (zs ! i) = Inr (ps ! i))"
proof -
  have len: "length ps = length zs"
    using arg_cong [OF assms, of length] by simp
  have "\<forall>i<length zs. f (zs ! i) = Inr (ps ! i)"
  proof (intro allI impI)
    fix i assume "i < length zs"
    then have "map Inr ps ! i = map f zs ! i" using assms by simp
    with \<open>i < length zs\<close> len show "f (zs ! i) = Inr (ps ! i)" by simp
  qed
  with len show ?thesis by simp
qed

lemma length_z_samples [simp]: "length (z_samples gan n s) = n"
  by (induction n arbitrary: s) (auto simp: Let_def split: prod.splits)

lemma bool_mean_eq_Inr:
  "bool_mean bs = Inr a \<longleftrightarrow>
     bs \<noteq> [] \<and> a = Val (real (length (filter (\<lambda>b. b) bs)) / real (length bs))"
  by (auto simp: bool_mean_def)













lemma ex_train_images: "GetRealImages ex_load_dataset (StrV ''mnist'') ''train'' 50000 False = Inr (replicate 3 [[[Val 255]]])"
  by (simp add: GetRealImages_def ex_load_dataset_def scale_images_def ex_real_image_def numeral_3_eq_3)

section \<open>Shapes, generation and the populations\<close>

lemma getitem_eq_Inr: "getitem options key = Inr v \<longleftrightarrow> options key = Some v"
  by (simp add: getitem_def split: option.splits)

lemma shape_scale_images [simp]: "shape (scale_images c xs) = shape xs"
  by (auto simp: shape_def scale_images_def image_shape_def split: list.splits)

lemma length_scale_images [simp]: "length (scale_images c xs) = length xs"
  by (simp add: scale_images_def)

lemma length_tile3 [simp]: "length (tile3 xs) = length xs"
  by (simp add: tile3_def)

lemma shape_length: "shape xs = shape ys \<Longrightarrow> length xs = length ys"
  by (auto simp: shape_def split: list.splits)

lemma shape_cases:
  "shape xs = [0] \<and> xs = [] \<or> (\<exists>h w c. shape xs = [length xs, h, w, c] \<and> xs \<noteq> [])"
  by (auto simp: shape_def image_shape_def split: list.splits)

lemma shape_tile3:
  "shape (tile3 xs) = (case shape xs of [n, h, w, c] \<Rightarrow> [n, h, w, 3 * c] | sh \<Rightarrow> sh)"
  by (auto simp: shape_def image_shape_def tile3_def split: list.splits)

lemma shape_tile3_cong: "shape xs = shape ys \<Longrightarrow> shape (tile3 xs) = shape (tile3 ys)"
  by (simp add: shape_tile3)

lemma shape3_eq_Inr: "shape3 xs = Inr c \<longleftrightarrow> (\<exists>h w. shape xs = [length xs, h, w, c] \<and> xs \<noteq> [])"
  using shape_cases [of xs] by (auto simp: shape3_def)

lemma generate_samples_Inr:
  "generate_samples gan n samples s = Inr (samples', s') \<Longrightarrow>
     samples' = samples @ map (fake_images gan) (z_samples gan n s)
     \<and> (\<forall>z\<in>set (z_samples gan n s). \<not> any_isnan (fake_images gan z))"
proof (induction n arbitrary: samples s)
  case 0
  then show ?case by simp
next
  case (Suc n)
  obtain z s1 where z: "z_generator gan (batch_size gan) (z_dim gan) s = (z, s1)"
    by (cases "z_generator gan (batch_size gan) (z_dim gan) s")
  from Suc.prems z have nn: "\<not> any_isnan (fake_images gan z)"
    and r: "generate_samples gan n (samples @ [fake_images gan z]) s1 = Inr (samples', s')"
    by (auto simp: Let_def split: if_splits)
  from Suc.IH [OF r] nn z show ?case by simp
qed

lemma materialize_eq:
  "materialize samples n real_images =
     (if samples = [] then Inl ValueError
      else if shape (take (nat n) (concat samples)) \<noteq> shape real_images then Inl AssertionError
      else case shape3 (take (nat n) (concat samples)) of
             Inl e \<Rightarrow> Inl e
           | Inr c \<Rightarrow>
               Inr (scale_images 255 (if c = 1 then tile3 (take (nat n) (concat samples))
                                      else take (nat n) (concat samples)),
                    if c = 1 then tile3 real_images else real_images))"
  by (simp add: materialize_def np_concatenate_def and_then_def Let_def split: sum.splits)

lemma shape3_cong: "shape xs = shape ys \<Longrightarrow> shape3 xs = shape3 ys"
  by (simp add: shape3_def)

lemma materialize_Inr:
  assumes "materialize samples n real_images = Inr (fake, real')"
  shows "samples \<noteq> []
     \<and> shape (take (nat n) (concat samples)) = shape real_images
     \<and> (\<exists>c. shape3 real_images = Inr c
          \<and> fake = scale_images 255 (if c = 1 then tile3 (take (nat n) (concat samples))
                                      else take (nat n) (concat samples))
          \<and> real' = (if c = 1 then tile3 real_images else real_images))"
proof -
  let ?F = "take (nat n) (concat samples)"
  from assms have ne: "samples \<noteq> []"
    by (simp add: materialize_eq split: if_splits)
  from assms ne have sh: "shape ?F = shape real_images"
    by (simp add: materialize_eq split: if_splits)
  from assms ne sh obtain c where c: "shape3 ?F = Inr c"
    and f: "fake = scale_images 255 (if c = 1 then tile3 ?F else ?F)"
    and r: "real' = (if c = 1 then tile3 real_images else real_images)"
    by (simp add: materialize_eq split: sum.splits)
  from c sh have "shape3 real_images = Inr c"
    using shape3_cong [of ?F real_images] by simp
  with ne sh f r show ?thesis by blast
qed

lemma materialize_Inr_channels:
  assumes "materialize samples n real_images = Inr (fake, real')"
  shows "fake = scale_images 255 (if shape3 real_images = Inr 1
                                   then tile3 (take (nat n) (concat samples))
                                   else take (nat n) (concat samples))
       \<and> real' = (if shape3 real_images = Inr 1 then tile3 real_images else real_images)"
  using materialize_Inr [OF assms] by auto

lemma GetRealImages_required:
  "GetRealImages loader dataset split_name n True = Inr xs \<Longrightarrow> int (length xs) = n"
  by (auto simp: GetRealImages_def Let_def split: if_splits)

lemma BuildPopulations_Inr:
  assumes "BuildPopulations env checkpoint_path options tasks = Inr (n, fake, real', rd, s2)"
  shows "\<exists>gan_type dataset real_images gan samples s1.
      options ''gan_type'' = Some gan_type
    \<and> options ''dataset'' = Some dataset
    \<and> num_test_examples_of env dataset options = Inr n
    \<and> GetRealImages (load_dataset env) dataset ''test'' n True = Inr real_images
    \<and> create_gan env gan_type dataset options checkpoint_path = Inr gan
    \<and> batch_size gan \<noteq> 0
    \<and> generate_samples gan (nat \<lceil>real_of_int n / real (batch_size gan)\<rceil>) []
          (random_seed env 42) = Inr (samples, s1)
    \<and> run_in_session tasks options gan real_images Map.empty s1 = Inr (rd, s2)
    \<and> materialize samples n real_images = Inr (fake, real')"
  using assms
  unfolding BuildPopulations_def Let_def
  apply (simp add: and_then_eq_Inr getitem_eq_Inr split: if_splits prod.splits)
  apply (elim exE conjE disjE)
   apply simp
  apply blast
  done

lemma num_test_examples_of_Inr:
  assumes "num_test_examples_of env dataset options = Inr n"
  shows "n mod INCEPTION_BATCH = 0
     \<and> (\<forall>m. (GetDatasetParameters env dataset ++ options) ''eval_test_samples'' = Some (IntV m)
           \<longrightarrow> n = m - m mod INCEPTION_BATCH)
     \<and> ((GetDatasetParameters env dataset ++ options) ''eval_test_samples'' = None
           \<longrightarrow> n = 10000)"
  using assms
  by (auto simp: num_test_examples_of_def Let_def INCEPTION_BATCH_def
      split: option.splits pyval.splits if_splits)

lemma ceil_batches_upper:
  assumes "0 < b"
  shows "int (nat \<lceil>real_of_int n / real b\<rceil> * b) < max n 0 + int b"
proof (cases "0 < n")
  case True
  let ?c = "\<lceil>real_of_int n / real b\<rceil>"
  have "0 < real_of_int n / real b" using True assms by simp
  then have pos: "0 \<le> ?c" by simp
  have "(of_int ?c - 1) * real b < real_of_int n"
    using ceiling_divide_lower [of "real b" "real_of_int n"] assms by simp
  then have "real_of_int (?c * int b) < real_of_int (n + int b)"
    by (simp add: algebra_simps)
  then have "?c * int b < n + int b" by (simp only: of_int_less_iff)
  moreover have "int (nat ?c * b) = ?c * int b" using pos by simp
  ultimately show ?thesis using True by simp
next
  case False
  then have "real_of_int n / real b \<le> 0" using assms by (simp add: divide_le_0_iff)
  then have "\<lceil>real_of_int n / real b\<rceil> \<le> 0" by (simp add: ceiling_le_iff)
  then show ?thesis using assms False by simp
qed

lemma length_concat_batches:
  "\<forall>z. length (g z) = b \<Longrightarrow> length (concat (map g zs)) = length zs * b"
  by (induction zs) simp_all

lemma tile3_nth:
  "i < length xs \<Longrightarrow> j < length (xs ! i) \<Longrightarrow> k < length (xs ! i ! j) \<Longrightarrow>
     tile3 xs ! i ! j ! k = xs ! i ! j ! k @ xs ! i ! j ! k @ xs ! i ! j ! k"
  by (simp add: tile3_def)

lemma scale_tile3_nth:
  "i < length xs \<Longrightarrow> j < length (xs ! i) \<Longrightarrow> k < length (xs ! i ! j) \<Longrightarrow>
     scale_images c (tile3 xs) ! i ! j ! k =
       map (np_scale c) (xs ! i ! j ! k @ xs ! i ! j ! k @ xs ! i ! j ! k)"
  by (simp add: tile3_def scale_images_def)

section \<open>Header, rows and formatting\<close>

lemmas task_defs = InceptionScoreTask_def FIDScoreTask_def KIDScoreTask_def MultiscaleSSIMTask_def
  FractalDimensionTask_def ComputeAccuracyTask_def GILBOTask_def GeneratorConditionNumberTask_def

lemma sorted_set_eq: "sorted_set xs = sort (remdups xs)"
  by (simp add: sorted_set_def sorted_list_of_set_sort_remdups)

lemma task_headers_tasks_to_run:
  "task_headers (tasks_to_run env) =
     [''inception_score'', ''fid_score'', ''ms_ssim'',
      ''fake_accuracy'', ''test_accuracy'', ''test_d_loss'', ''train_accuracy'', ''train_d_loss'',
      ''fractal_dimension'', ''kid_score'',
      ''log_condition_number_count'', ''log_condition_number_mean'', ''log_condition_number_std'',
      ''gilbo'', ''gilbo_eval_consistency'', ''gilbo_self_consistency'',
      ''gilbo_train_consistency'']"
  by (simp add: task_headers_def tasks_to_run_def task_defs sorted_set_eq)

lemma ex_params: "GetAllTrainingParams (ex_env py3 cps) = [''architecture'', ''beta1'', ''lambda'']"
  by (simp add: GetAllTrainingParams_def ex_env_def SUPPORTED_GANS_def sorted_set_eq)

lemma param_columns_length:
  "param_columns options ps = Inr cs \<Longrightarrow> length cs = length ps"
  by (induction ps arbitrary: cs) (auto simp: and_then_eq_Inr)


lemma output_row_eq_Inr:
  "output_row options headers train_params checkpoint_path result_dict default_value = Inr row
   \<longleftrightarrow> (\<exists>gan_type dataset params.
          options ''gan_type'' = Some gan_type \<and> options ''dataset'' = Some dataset \<and>
          param_columns options train_params = Inr params \<and>
          row = [checkpoint_path, str gan_type, str dataset,
                 str (case options ''tf_seed'' of None \<Rightarrow> IntV (- 1) | Some v \<Rightarrow> v),
                 str (case options ''sample_id'' of None \<Rightarrow> IntV (- 1) | Some v \<Rightarrow> v)]
                @ metric_columns headers result_dict default_value @ params)"
  by (auto simp: output_row_def Let_def and_then_eq_Inr getitem_eq_Inr)

lemma output_row_shape:
  assumes "output_row options headers train_params checkpoint_path result_dict default_value = Inr row"
  shows "length row = 5 + length headers + length train_params \<and> hd row = checkpoint_path
       \<and> take (length headers) (drop 5 row) = metric_columns headers result_dict default_value"
  using assms param_columns_length
  by (auto simp: output_row_eq_Inr metric_columns_def)

lemma fmt3_NAN_DETECTED: "fmt3 NAN_DETECTED = ''31337.000''"
  by (simp add: NAN_DETECTED_def fmt3_real_def round_half_even_def str_nat.simps digit_char_def)

lemma metric_columns_empty:
  "metric_columns headers Map.empty NAN_DETECTED = replicate (length headers) ''31337.000''"
  by (simp add: metric_columns_def fmt3_NAN_DETECTED map_replicate_const)

section \<open>The sweep loop and the score table\<close>

lemma sweep_loop_skip_all:
  "\<forall>c\<in>set cps. Some c \<in> finished \<Longrightarrow>
     sweep_loop eval options headers tp finished cps st = (None, st)"
  by (induction cps) simp_all

lemma sweep_loop_result:
  assumes "sweep_loop eval options headers tp finished cps st = (r, st')"
  shows "\<exists>rows ev. scores st' = scores st @ rows \<and> evaluated st' = evaluated st @ ev
      \<and> (\<forall>row\<in>set rows. length row = 5 + length headers + length tp \<and> hd row \<in> set cps)
      \<and> set ev \<subseteq> {c \<in> set cps. Some c \<notin> finished}
      \<and> (r = None \<longrightarrow> (\<forall>c\<in>set cps. Some c \<notin> finished \<longrightarrow> (\<exists>row\<in>set rows. hd row = c)))"
  using assms
proof (induction cps arbitrary: st)
  case Nil
  then show ?case by simp
next
  case (Cons c cps)
  show ?case
  proof (cases "Some c \<in> finished")
    case True
    with Cons.prems have "sweep_loop eval options headers tp finished cps st = (r, st')" by simp
    from Cons.IH [OF this] obtain rows ev where
      a: "scores st' = scores st @ rows" "evaluated st' = evaluated st @ ev"
      and b: "\<forall>row\<in>set rows. length row = 5 + length headers + length tp \<and> hd row \<in> set cps"
      and c: "set ev \<subseteq> {c \<in> set cps. Some c \<notin> finished}"
      and d: "r = None \<longrightarrow> (\<forall>c\<in>set cps. Some c \<notin> finished \<longrightarrow> (\<exists>row\<in>set rows. hd row = c))"
      by blast
    have b': "\<forall>row\<in>set rows. length row = 5 + length headers + length tp \<and> hd row \<in> set (c # cps)"
      using b by simp
    have c': "set ev \<subseteq> {x \<in> set (c # cps). Some x \<notin> finished}" using c by auto
    have d': "r = None \<longrightarrow> (\<forall>x\<in>set (c # cps). Some x \<notin> finished \<longrightarrow> (\<exists>row\<in>set rows. hd row = x))"
      using d True by auto
    from a b' c' d' show ?thesis by blast
  next
    case False
    let ?st1 = "st\<lparr>evaluated := evaluated st @ [c]\<rparr>"
    define out where "out = (case eval c of
                Inr result_dict \<Rightarrow> Inr (result_dict, Val (- 1.0))
              | Inl NanFoundError \<Rightarrow> Inr (Map.empty, NAN_DETECTED)
              | Inl e \<Rightarrow> Inl e)"
    have eq: "sweep_loop eval options headers tp finished (c # cps) st =
        (case out of
          Inl e \<Rightarrow> (Some e, ?st1)
        | Inr (result_dict, default_value) \<Rightarrow>
            (case output_row options headers tp c result_dict default_value of
               Inl e \<Rightarrow> (Some e, ?st1)
             | Inr row \<Rightarrow>
                 sweep_loop eval options headers tp finished cps
                   (?st1\<lparr>scores := scores ?st1 @ [row]\<rparr>)))"
      using False by (simp add: out_def Let_def)
    have stop: ?thesis if "r \<noteq> None" "st' = ?st1"
    proof -
      have "scores st' = scores st @ []" "evaluated st' = evaluated st @ [c]"
        using that by simp_all
      moreover have "set [c] \<subseteq> {x \<in> set (c # cps). Some x \<notin> finished}" using False by simp
      ultimately show ?thesis using that(1) by (intro exI [of _ "[]"] exI [of _ "[c]"]) simp
    qed
    show ?thesis
    proof (cases out)
      case (Inl e)
      with eq Cons.prems have "r = Some e" "st' = ?st1" by simp_all
      then show ?thesis by (intro stop) simp_all
    next
      case (Inr p)
      obtain rd dv where p: "p = (rd, dv)" by (cases p)
      show ?thesis
      proof (cases "output_row options headers tp c rd dv")
        case (Inl e)
        with eq Cons.prems Inr p have "r = Some e" "st' = ?st1" by simp_all
        then show ?thesis by (intro stop) simp_all
      next
        case row: (Inr row)
        with eq Cons.prems Inr p have
          "sweep_loop eval options headers tp finished cps
             (?st1\<lparr>scores := scores ?st1 @ [row]\<rparr>) = (r, st')" by simp
        from Cons.IH [OF this] obtain rows ev where
          a: "scores st' = scores st @ row # rows" "evaluated st' = evaluated st @ c # ev"
          and b: "\<forall>row\<in>set rows. length row = 5 + length headers + length tp \<and> hd row \<in> set cps"
          and c: "set ev \<subseteq> {c \<in> set cps. Some c \<notin> finished}"
          and d: "r = None \<longrightarrow> (\<forall>c\<in>set cps. Some c \<notin> finished \<longrightarrow> (\<exists>row\<in>set rows. hd row = c))"
          by auto
        note sh = output_row_shape [OF row]
        have b': "\<forall>x\<in>set (row # rows). length x = 5 + length headers + length tp \<and> hd x \<in> set (c # cps)"
          using b sh by simp
        have c': "set (c # ev) \<subseteq> {x \<in> set (c # cps). Some x \<notin> finished}" using c False by auto
        have d': "r = None \<longrightarrow> (\<forall>x\<in>set (c # cps). Some x \<notin> finished \<longrightarrow> (\<exists>y\<in>set (row # rows). hd y = x))"
          using d sh by auto
        from a b' c' d' show ?thesis by blast
      qed
    qed
  qed
qed

lemma row_value_first:
  assumes "distinct (k # ks)" "row \<noteq> []"
  shows "row_value (k # ks) row k = Some (Some (hd row))"
proof -
  obtain r rs where row: "row = r # rs" using assms(2) by (cases row) auto
  let ?vals = "map Some rs @ replicate (length (k # ks) - length row) None"
  have z: "zip (k # ks) (map Some row @ replicate (length (k # ks) - length row) None) =
        (k, Some r) # zip ks ?vals"
    by (simp add: row)
  have "k \<notin> fst ` set (rev (zip ks ?vals))"
    using assms(1) by (auto dest: set_zip_leftD)
  then have "map_of (rev (zip ks ?vals)) k = None"
    by (simp add: map_of_eq_None_iff)
  then show ?thesis
    by (simp add: row_value_def z row map_add_def del: replicate.simps zip_append1 zip_append2)
qed

lemma row_keys_short:
  "distinct header \<Longrightarrow> length row \<le> length header \<Longrightarrow> row_keys header row = map Some header"
  by (simp add: row_keys_def distinct_map)

lemma read_finished_ok:
  assumes "distinct header" "header \<noteq> []" "hd header = ''checkpoint_path''"
      and "\<forall>row\<in>set rows. row \<noteq> [] \<and> length row \<le> length header"
  shows "read_finished py3 header header rows fin = Inr (fin \<union> (\<lambda>row. Some (hd row)) ` set rows)"
  using assms(4)
proof (induction rows arbitrary: fin)
  case Nil
  then show ?case by simp
next
  case (Cons row rows)
  obtain k ks where h: "header = k # ks" using assms(2) by (cases header) auto
  with assms(3) have k: "k = ''checkpoint_path''" by simp
  from Cons.prems have r: "row \<noteq> []" "length row \<le> length header" by simp_all
  have keys: "row_keys header row = map Some header"
    using assms(1) r(2) by (rule row_keys_short)
  have v: "row_value header row ''checkpoint_path'' = Some (Some (hd row))"
    using row_value_first [of k ks row] assms(1) r(1) h k by simp
  from Cons.prems have "\<forall>row\<in>set rows. row \<noteq> [] \<and> length row \<le> length header" by simp
  from Cons.IH [OF this, of "insert (Some (hd row)) fin"] show ?case
    by (simp add: keys v Let_def)
qed

lemma read_finished_Inr_short:
  assumes "distinct header" "header \<noteq> []"
      and "read_finished py3 header header rows fin = Inr fin'"
  shows "\<forall>row\<in>set rows. length row \<le> length header"
  using assms(3)
proof (induction rows arbitrary: fin)
  case Nil
  then show ?case by simp
next
  case (Cons row rows)
  have short: "length row \<le> length header"
  proof (rule ccontr)
    assume "\<not> length row \<le> length header"
    then have keys: "row_keys header row = map Some header @ [None]"
      using assms(1) by (simp add: row_keys_def distinct_map)
    have "length (sort (map Some header)) \<noteq> length (sort (map Some header @ [None]))" by simp
    then have ne: "sort (map Some header) \<noteq> sort (map Some header @ [None])" by metis
    from assms(2) have "2 \<le> length (map Some header @ [None])" by (cases header) simp_all
    with Cons.prems keys ne show False by (simp add: Let_def split: if_splits)
  qed
  then have keys: "row_keys header row = map Some header"
    using assms(1) by (intro row_keys_short)
  from Cons.prems keys obtain v where
    "read_finished py3 header header rows (insert v fin) = Inr fin'"
    by (auto simp: Let_def split: option.splits)
  from Cons.IH [OF this] short show ?case by simp
qed

lemma finished_checkpoints_Inr:
  assumes "distinct header" "header \<noteq> []" "hd header = ''checkpoint_path''"
      and "finished_checkpoints py3 header (header # rows) = Inr fin"
  shows "(\<forall>row\<in>set rows. length row \<le> length header)
       \<and> fin = (\<lambda>row. Some (hd row)) ` {row \<in> set rows. row \<noteq> []}"
proof -
  let ?rows = "filter (\<lambda>row. row \<noteq> []) rows"
  from assms(4) have rf: "read_finished py3 header header ?rows {} = Inr fin"
    by (simp add: finished_checkpoints_def)
  from read_finished_Inr_short [OF assms(1,2) rf]
  have short: "\<forall>row\<in>set ?rows. length row \<le> length header" .
  then have short': "\<forall>row\<in>set rows. length row \<le> length header" by auto
  have "\<forall>row\<in>set ?rows. row \<noteq> [] \<and> length row \<le> length header" using short by simp
  from read_finished_ok [OF assms(1,2,3) this, of py3 "{}"] rf
  have "fin = (\<lambda>row. Some (hd row)) ` set ?rows" by simp
  with short' show ?thesis by simp
qed

lemma finished_checkpoints_ok:
  assumes "distinct header" "header \<noteq> []" "hd header = ''checkpoint_path''"
      and "\<forall>row\<in>set rows. length row \<le> length header"
  shows "finished_checkpoints py3 header (header # rows) =
           Inr ((\<lambda>row. Some (hd row)) ` {row \<in> set rows. row \<noteq> []})"
proof -
  let ?rows = "filter (\<lambda>row. row \<noteq> []) rows"
  have "\<forall>row\<in>set ?rows. row \<noteq> [] \<and> length row \<le> length header" using assms(4) by simp
  from read_finished_ok [OF assms(1,2,3) this, of py3 "{}"]
  show ?thesis by (simp add: finished_checkpoints_def)
qed

lemma sweep_twice:
  assumes h: "header = fixed_columns @ headers @ tp"
      and dist: "distinct header"
      and f0: "file = None \<or> (\<exists>rows. file = Some (header # rows))"
      and run1: "sweep py3 header headers tp eval options (Some cps) file = (None, Some file1, ev1)"
  shows "sweep py3 header headers tp eval' options (Some cps) (Some file1) = (None, Some file1, [])"
proof -
  have ne: "header \<noteq> []" and hd: "hd header = ''checkpoint_path''"
    and len: "length header = 5 + length headers + length tp"
    using h by (simp_all add: fixed_columns_def)
  from f0 obtain rows0 where file0: "(case file of None \<Rightarrow> [header] | Some f \<Rightarrow> f) = header # rows0"
    by (auto split: option.splits)
  define prep where "prep = (case finished_checkpoints py3 header (header # rows0) of
              Inr finished \<Rightarrow> Inr (finished, header # rows0)
            | Inl ValueError \<Rightarrow> Inr ({}, [header])
            | Inl e \<Rightarrow> Inl e)"
  have s1: "sweep py3 header headers tp eval options (Some cps) file =
      (case prep of
        Inl e \<Rightarrow> (Some e, Some (header # rows0), [])
      | Inr (finished, file2) \<Rightarrow>
          (case sweep_loop eval options headers tp finished cps \<lparr>scores = file2, evaluated = []\<rparr> of
                  (r, st) \<Rightarrow> (r, Some (scores st), evaluated st)))"
    by (simp add: sweep_def file0 prep_def Let_def split: sum.splits)
  from run1 s1 obtain fin file2 where prep: "prep = Inr (fin, file2)"
    by (cases prep) auto
  have "\<exists>rowsA. file2 = header # rowsA \<and> (\<forall>row\<in>set rowsA. length row \<le> length header)
          \<and> fin = (\<lambda>row. Some (hd row)) ` {row \<in> set rowsA. row \<noteq> []}"
  proof (cases "finished_checkpoints py3 header (header # rows0)")
    case (Inr f)
    with prep have "fin = f" "file2 = header # rows0" by (simp_all add: prep_def)
    with finished_checkpoints_Inr [OF dist ne hd Inr] show ?thesis by blast
  next
    case (Inl e)
    with prep have "fin = {}" "file2 = [header]"
      by (cases e; simp add: prep_def)+
    then show ?thesis by simp
  qed
  then obtain rowsA where file2: "file2 = header # rowsA"
    and shortA: "\<forall>row\<in>set rowsA. length row \<le> length header"
    and fin: "fin = (\<lambda>row. Some (hd row)) ` {row \<in> set rowsA. row \<noteq> []}"
    by blast
  from run1 s1 prep obtain st where
    loop: "sweep_loop eval options headers tp fin cps \<lparr>scores = file2, evaluated = []\<rparr> = (None, st)"
    and st: "scores st = file1"
    by (auto split: prod.splits)
  from sweep_loop_result [OF loop] obtain rows where
    sc: "scores st = file2 @ rows"
    and lens: "\<forall>row\<in>set rows. length row = 5 + length headers + length tp \<and> hd row \<in> set cps"
    and cover: "\<forall>c\<in>set cps. Some c \<notin> fin \<longrightarrow> (\<exists>row\<in>set rows. hd row = c)"
    by auto
  have f1: "file1 = header # (rowsA @ rows)" using st sc file2 by simp
  have short: "\<forall>row\<in>set (rowsA @ rows). length row \<le> length header"
    using shortA lens len by auto
  let ?fin2 = "(\<lambda>row. Some (hd row)) ` {row \<in> set (rowsA @ rows). row \<noteq> []}"
  have fc: "finished_checkpoints py3 header file1 = Inr ?fin2"
    unfolding f1 using dist ne hd short by (rule finished_checkpoints_ok)
  have all: "\<forall>c\<in>set cps. Some c \<in> ?fin2"
  proof
    fix c assume c: "c \<in> set cps"
    show "Some c \<in> ?fin2"
    proof (cases "Some c \<in> fin")
      case True
      then show ?thesis unfolding fin by auto
    next
      case False
      with cover c obtain row where row: "row \<in> set rows" "hd row = c" by blast
      with lens have "row \<noteq> []" by auto
      with row show ?thesis by force
    qed
  qed
  have "sweep_loop eval' options headers tp ?fin2 cps \<lparr>scores = file1, evaluated = []\<rparr> =
          (None, \<lparr>scores = file1, evaluated = []\<rparr>)"
    using all by (rule sweep_loop_skip_all)
  then show ?thesis
    by (simp add: sweep_def fc Let_def)
qed

lemma sweep_loop_skip:
  "Some c \<in> finished \<Longrightarrow>
     sweep_loop eval options headers tp finished (c # rest) st =
     sweep_loop eval options headers tp finished rest st"
  by simp

lemma csv_header_facts:
  "csv_header env \<noteq> []" "hd (csv_header env) = ''checkpoint_path''"
  by (simp_all add: csv_header_def fixed_columns_def)

section \<open>Evaluation of the concrete run\<close>

lemma ex_options_simps:
  "ex_options ''dataset'' = Some (StrV ''mnist'')"
  "ex_options ''gan_type'' = Some (StrV ''GAN'')"
  "ex_options ''eval_test_samples'' = None"
  "ex_options ''tf_seed'' = None"
  "ex_options ''sample_id'' = None"
  "ex_options ''architecture'' = None"
  "ex_options ''beta1'' = None"
  "ex_options ''lambda'' = None"
  "option_enabled ex_options ''compute_kid_score'' = False"
  "option_enabled ex_options ''compute_fractal_dimension'' = False"
  "option_enabled ex_options ''compute_gilbo'' = False"
  "option_enabled ex_options ''compute_generator_condition_number'' = False"
  by (simp_all add: ex_options_def option_enabled_def)

lemma ex_num_test_examples:
  "num_test_examples_of (ex_env py3 cps) (StrV ''mnist'') ex_options = Inr 50"
  by (simp add: num_test_examples_of_def ex_env_def map_add_def ex_options_simps
      INCEPTION_BATCH_def)

lemma ex_real_images:
  "GetRealImages (load_dataset (ex_env py3 cps)) (StrV ''mnist'') ''test'' 50 True =
     Inr (replicate 50 [[[Val 255]]])"
  by (simp add: GetRealImages_def ex_env_def scale_images_def ex_real_image_def)

lemma ex_in_session:
  "run_in_session (tasks_to_run (ex_env py3 cps)) ex_options gan real_images rd s = Inr (rd, s)"
  by (simp add: tasks_to_run_def task_defs no_session_hook_def
      ShouldRunAccuracyLossTrainVsTest_def ex_options_simps ex_env_def)

lemma shape_replicate: "0 < n \<Longrightarrow> shape (replicate n img) = n # image_shape img"
  by (cases n) (simp_all add: shape_def)

lemma any_isnan_replicate:
  "any_isnan (replicate n [[[v]]]) \<longleftrightarrow> 0 < n \<and> isnan v"
  by (induction n) (auto simp: any_isnan_def)

lemma ex_generate:
  "generate_samples (ex_checkpoint_gan c) 2 [] 42 =
     (if c = ''ckpt-nan'' then Inl NanFoundError
      else Inr ([replicate 40 [[[ex_pixel c]]], replicate 40 [[[ex_pixel c]]]], 44))"
  by (simp add: numeral_2_eq_2 ex_checkpoint_gan_def any_isnan_replicate ex_pixel_def Let_def)

lemma ex_num_batches: "nat \<lceil>real_of_int 50 / real (batch_size (ex_checkpoint_gan c))\<rceil> = 2"
  by (simp add: ex_checkpoint_gan_def)

lemma ex_materialize:
  "materialize [replicate 40 [[[v]]], replicate 40 [[[v]]]] 50 (replicate 50 [[[Val 255]]]) =
     Inr (replicate 50 [[[np_scale 255 v, np_scale 255 v, np_scale 255 v]]],
          replicate 50 [[[Val 255, Val 255, Val 255]]])"
proof -
  have t: "take (nat 50) (concat [replicate 40 [[[v]]], replicate 40 [[[v]]]]) =
        replicate 50 [[[v]]]"
    by (simp add: replicate_add [symmetric])
  show ?thesis
    unfolding materialize_eq t
    by (simp add: shape_replicate image_shape_def shape3_def tile3_def scale_images_def)
qed

lemma ex_env_fields:
  "random_seed (ex_env py3 cps) n = n"
  "create_gan (ex_env py3 cps) g d opts c = Inr (ex_checkpoint_gan c)"
  "MODELS_WITH_PENALTIES (ex_env py3 cps) = [''GAN_PENALTY'', ''WGAN_PENALTY'', ''LSGAN_PENALTY'']"
  "get_checkpoint_state (ex_env py3 cps) = Some cps"
  "python3 (ex_env py3 cps) = py3"
  "inception_score_fn (ex_env py3 cps) fake s = Inr (Val (3 / 2), s)"
  "get_fid_function (ex_env py3 cps) fake real_images s = Inr (Val 12.3456, s)"
  by (simp_all add: ex_env_def)

lemma ex_BuildPopulations:
  "BuildPopulations (ex_env py3 cps) c ex_options (tasks_to_run (ex_env py3 cps)) =
     (if c = ''ckpt-nan'' then Inl NanFoundError
      else Inr (50,
        replicate 50 [[[np_scale 255 (ex_pixel c), np_scale 255 (ex_pixel c),
                        np_scale 255 (ex_pixel c)]]],
        replicate 50 [[[Val 255, Val 255, Val 255]]], Map.empty, 44))"
proof -
  have bs: "batch_size (ex_checkpoint_gan c) \<noteq> 0" by (simp add: ex_checkpoint_gan_def)
  have g: "StrV ''GAN'' \<in> set (map StrV (SUPPORTED_GANS (ex_env py3 cps)))"
    by (simp add: SUPPORTED_GANS_def)
  show ?thesis
    unfolding BuildPopulations_def Let_def
    by (simp only: getitem_def ex_options_simps option.case and_then_Inr g not_True_eq_False
        not_not if_False ex_num_test_examples ex_real_images ex_env_fields bs ex_num_batches
        ex_generate)
       (simp add: ex_in_session ex_materialize)
qed

lemma ex_after_session:
  "run_after_session (tasks_to_run (ex_env py3 cps)) ex_options
      (replicate 50 [[[a, b, c]]]) (replicate 50 [[[d, e, f]]]) rd s =
     Inr (rd ++ map_of [(''inception_score'', Val (3 / 2))] ++ map_of [(''fid_score'', Val 12.3456)], s)"
  by (simp add: tasks_to_run_def task_defs no_after_hook_def single_metric_def
      GetInceptionScore_def ComputeTFGanFIDScore_def batch_asserts_def ShouldRunMultiscaleSSIM_def
      shape3_def shape_replicate image_shape_def INCEPTION_BATCH_def ex_options_simps
      ex_env_fields)

lemma ex_result_eq:
  "map_of [(''inception_score'', Val (3 / 2))] ++ map_of [(''fid_score'', Val (7716 / 625))]
     = ex_result"
  by (rule ext) (simp add: ex_result_def map_add_def)

lemma ex_RunCheckpointEval:
  "RunCheckpointEval (ex_env py3 cps) c ex_options (tasks_to_run (ex_env py3 cps)) =
     (if c = ''ckpt-nan'' then Inl NanFoundError else Inr ex_result)"
  by (simp add: RunCheckpointEval_def ex_BuildPopulations ex_after_session ex_result_eq
      del: map_of.simps)

lemma ex_tp_columns:
  "param_columns ex_options [''architecture'', ''beta1'', ''lambda''] =
     Inr [''unknown'', ''-1.0'', ''-1.0'']"
  by (simp add: ex_options_simps DEFAULT_VALUES_def)

lemma fmt3_minus_one: "fmt3 (Val (- 1.0)) = ''-1.000''"
  by (simp add: fmt3_real_def round_half_even_def str_nat.simps digit_char_def)

lemma replicate_15: "replicate 15 x = [x, x, x, x, x, x, x, x, x, x, x, x, x, x, x]"
  by (simp add: eval_nat_numeral)

lemma replicate_17: "replicate 17 x = [x, x, x, x, x, x, x, x, x, x, x, x, x, x, x, x, x]"
  by (simp add: eval_nat_numeral)

lemma ex_metric_columns_ok:
  "metric_columns (task_headers (tasks_to_run env)) ex_result (Val (- 1)) = ex_metrics"
  by (simp add: task_headers_tasks_to_run metric_columns_def ex_result_def ex_metrics_def
      fmt3_real_def round_half_even_def str_nat.simps digit_char_def replicate_15)

lemma ex_metric_columns_nan:
  "metric_columns (task_headers (tasks_to_run env)) Map.empty NAN_DETECTED =
     replicate 17 ''31337.000''"
  by (simp add: metric_columns_empty task_headers_tasks_to_run replicate_17)

lemma str_minus_one: "str (IntV (- 1)) = ''-1''"
  by (simp add: str_int_def str_nat.simps digit_char_def)

lemma ex_output_row:
  "output_row ex_options (task_headers (tasks_to_run (ex_env py3 cps)))
      (GetAllTrainingParams (ex_env py3 cps)) c rd dv =
     Inr (ex_row c (metric_columns (task_headers (tasks_to_run (ex_env py3 cps))) rd dv))"
  by (simp add: output_row_def getitem_def ex_options_simps ex_params ex_tp_columns
      str_int_def str_nat.simps digit_char_def ex_row_def del: param_columns.simps)

lemma ex_csv_header:
  "csv_header (ex_env py3 cps) =
     fixed_columns @
     [''inception_score'', ''fid_score'', ''ms_ssim'',
      ''fake_accuracy'', ''test_accuracy'', ''test_d_loss'', ''train_accuracy'', ''train_d_loss'',
      ''fractal_dimension'', ''kid_score'',
      ''log_condition_number_count'', ''log_condition_number_mean'', ''log_condition_number_std'',
      ''gilbo'', ''gilbo_eval_consistency'', ''gilbo_self_consistency'',
      ''gilbo_train_consistency''] @
     [''architecture'', ''beta1'', ''lambda'']"
  by (simp add: csv_header_def task_headers_tasks_to_run ex_params)

lemma ex_distinct_header: "distinct (csv_header (ex_env py3 cps))"
  by (simp add: ex_csv_header fixed_columns_def)

lemma ex_sweep_step:
  "Some c \<notin> finished \<Longrightarrow>
   sweep_loop (\<lambda>checkpoint_path. RunCheckpointEval (ex_env py3 cps) checkpoint_path ex_options
                  (tasks_to_run (ex_env py3 cps)))
      ex_options (task_headers (tasks_to_run (ex_env py3 cps)))
      (GetAllTrainingParams (ex_env py3 cps)) finished (c # rest) st =
   sweep_loop (\<lambda>checkpoint_path. RunCheckpointEval (ex_env py3 cps) checkpoint_path ex_options
                  (tasks_to_run (ex_env py3 cps)))
      ex_options (task_headers (tasks_to_run (ex_env py3 cps)))
      (GetAllTrainingParams (ex_env py3 cps)) finished rest
      (st\<lparr>evaluated := evaluated st @ [c],
          scores := scores st @
            [ex_row c (if c = ''ckpt-nan'' then replicate 17 ''31337.000'' else ex_metrics)]\<rparr>)"
  by (simp add: ex_RunCheckpointEval ex_output_row ex_metric_columns_ok ex_metric_columns_nan
      Let_def)

lemma ex_run_fresh:
  "RunTaskEval (ex_env py3 [''ckpt-1'', ''ckpt-nan'', ''ckpt-2'']) ex_options None =
     (None,
      Some [csv_header (ex_env py3 [''ckpt-1'', ''ckpt-nan'', ''ckpt-2'']),
            ex_row ''ckpt-1'' ex_metrics,
            ex_row ''ckpt-nan'' (replicate 17 ''31337.000''),
            ex_row ''ckpt-2'' ex_metrics],
      [''ckpt-1'', ''ckpt-nan'', ''ckpt-2''])"
  by (simp add: RunTaskEval_def sweep_def ex_options_simps ex_env_fields finished_checkpoints_def
      ex_sweep_step Let_def del: sweep_loop.simps(2))

section \<open>Three-decimal strings\<close>

lemma is_digit_digit_char: "d < 10 \<Longrightarrow> is_digit (digit_char d)"
  unfolding is_digit_def digit_char_def by (rule nth_mem) simp

lemma str_nat_digits: "str_nat n \<noteq> [] \<and> list_all is_digit (str_nat n)"
proof (induction n rule: str_nat.induct)
  case (1 n)
  show ?case
  proof (cases "n < 10")
    case True
    then show ?thesis by (simp add: str_nat.simps [of n] is_digit_digit_char)
  next
    case False
    with 1 have "str_nat (n div 10) \<noteq> [] \<and> list_all is_digit (str_nat (n div 10))" by simp
    moreover have "is_digit (digit_char (n mod 10))" by (simp add: is_digit_digit_char)
    ultimately show ?thesis using False by (simp add: str_nat.simps [of n])
  qed
qed

lemma not_digit_minus: "is_digit c \<Longrightarrow> c \<noteq> CHR ''-''"
  by (auto simp: is_digit_def)

lemma fixed_point3_digits:
  assumes "ip \<noteq> []" "list_all is_digit ip" "is_digit a" "is_digit b" "is_digit c"
  shows "fixed_point3 (ip @ CHR ''.'' # [a, b, c])"
    and "fixed_point3 (CHR ''-'' # ip @ CHR ''.'' # [a, b, c])"
proof -
  obtain i rest where ip: "ip = i # rest" using assms(1) by (cases ip) auto
  with assms(2) have i: "i \<noteq> CHR ''-''" by (simp add: not_digit_minus)
  have t: "5 \<le> length (ip @ CHR ''.'' # [a, b, c])
      \<and> (ip @ CHR ''.'' # [a, b, c]) ! (length (ip @ CHR ''.'' # [a, b, c]) - 4) = CHR ''.''
      \<and> list_all is_digit (take (length (ip @ CHR ''.'' # [a, b, c]) - 4) (ip @ CHR ''.'' # [a, b, c]))
      \<and> list_all is_digit (drop (length (ip @ CHR ''.'' # [a, b, c]) - 3) (ip @ CHR ''.'' # [a, b, c]))"
    using assms by (simp add: ip nth_append)
  show "fixed_point3 (ip @ CHR ''.'' # [a, b, c])"
    using t i unfolding fixed_point3_def Let_def by (simp add: ip)
  show "fixed_point3 (CHR ''-'' # ip @ CHR ''.'' # [a, b, c])"
    using t unfolding fixed_point3_def Let_def by simp
qed

lemma fmt3_real_fixed: "fixed_point3 (fmt3_real x)"
proof -
  let ?m = "nat (round_half_even (\<bar>x\<bar> * 1000))"
  have d: "is_digit (digit_char (?m mod 1000 div 100))" "is_digit (digit_char (?m mod 100 div 10))"
    "is_digit (digit_char (?m mod 10))"
    by (simp_all add: is_digit_digit_char div_less_iff_less_mult)
  note n = str_nat_digits [of "?m div 1000"]
  show ?thesis
    using fixed_point3_digits [OF conjunct1 [OF n] conjunct2 [OF n] d]
    by (cases "x < 0") (simp_all add: fmt3_real_def Let_def)
qed

lemma sorted_set_sorted: "sorted (sorted_set xs) \<and> distinct (sorted_set xs)"
  by (simp add: sorted_set_eq)

lemma sweep_fresh_header:
  assumes "sweep py3 header headers tp eval options cps None = (r, Some f, ev)"
  shows "f \<noteq> [] \<and> hd f = header"
proof -
  have fc: "finished_checkpoints py3 header [header] = Inr {}"
    by (simp add: finished_checkpoints_def)
  show ?thesis
  proof (cases cps)
    case None
    with assms fc show ?thesis by (auto simp: sweep_def)
  next
    case (Some cs)
    obtain r' st where l: "sweep_loop eval options headers tp {} cs \<lparr>scores = [header], evaluated = []\<rparr> = (r', st)"
      by (cases "sweep_loop eval options headers tp {} cs \<lparr>scores = [header], evaluated = []\<rparr>")
    from sweep_loop_result [OF l] obtain rows where sc: "scores st = header # rows" by auto
    from assms fc Some l have "f = scores st" by (simp add: sweep_def)
    with sc show ?thesis by simp
  qed
qed

lemma sort_neq_length: "length xs \<noteq> length ys \<Longrightarrow> sort xs \<noteq> sort ys"
  by (metis length_sort)


lemma ex_seq_fields:
  "random_seed ex_seq_env n = n"
  "create_gan ex_seq_env g d opts c = Inr ex_seq_gan"
  "MODELS_WITH_PENALTIES ex_seq_env = [''GAN_PENALTY'', ''WGAN_PENALTY'', ''LSGAN_PENALTY'']"
  "load_dataset ex_seq_env = load_dataset (ex_env True [])"
  by (simp_all add: ex_seq_env_def ex_env_def)

lemma ex_seq_num_test_examples:
  "num_test_examples_of ex_seq_env (StrV ''mnist'') ex_options = Inr 50"
  by (simp add: num_test_examples_of_def ex_seq_env_def ex_env_def map_add_def ex_options_simps
      INCEPTION_BATCH_def)

lemma ex_seq_in_session:
  "run_in_session (tasks_to_run ex_seq_env) ex_options gan real_images rd s = Inr (rd, s)"
  by (simp add: tasks_to_run_def task_defs no_session_hook_def
      ShouldRunAccuracyLossTrainVsTest_def ex_options_simps ex_seq_env_def ex_env_def)

lemma ex_seq_num_batches: "nat \<lceil>real_of_int 50 / real (batch_size ex_seq_gan)\<rceil> = 2"
  by (simp add: ex_seq_gan_def)

lemma ex_seq_z_samples: "z_samples ex_seq_gan 2 42 = [42, 43]"
  by (simp add: numeral_2_eq_2 ex_seq_gan_def)

lemma ex_seq_generate:
  "generate_samples ex_seq_gan 2 [] 42 =
     Inr ([replicate 40 [[[Val (21 / 50)]]], replicate 40 [[[Val (43 / 100)]]]], 44)"
  by (simp add: numeral_2_eq_2 ex_seq_gan_def any_isnan_replicate Let_def)

lemma ex_seq_generated:
  "take (nat 50) (concat (map (fake_images ex_seq_gan) [42, 43])) =
     replicate 40 [[[Val (21 / 50)]]] @ replicate 10 [[[Val (43 / 100)]]]"
  by (simp add: ex_seq_gan_def)

lemma shape_replicate_append:
  "0 < n \<Longrightarrow> shape (replicate n img @ xs) = (n + length xs) # image_shape img"
  by (cases n) (simp_all add: shape_def)

lemma ex_seq_materialize:
  "materialize [replicate 40 [[[Val (21 / 50)]]], replicate 40 [[[Val (43 / 100)]]]] 50
       (replicate 50 [[[Val 255]]]) =
     Inr (replicate 40 [[[Val (1071 / 10), Val (1071 / 10), Val (1071 / 10)]]] @
          replicate 10 [[[Val (2193 / 20), Val (2193 / 20), Val (2193 / 20)]]],
          replicate 50 [[[Val 255, Val 255, Val 255]]])"
proof -
  have t: "take (nat 50) (concat [replicate 40 [[[Val (21 / 50)]]], replicate 40 [[[Val (43 / 100)]]]]) =
        replicate 40 [[[Val (21 / 50)]]] @ replicate 10 [[[Val (43 / 100)]]]"
    by simp
  show ?thesis
    unfolding materialize_eq t
    by (simp add: shape_replicate shape_replicate_append image_shape_def shape3_def tile3_def
        scale_images_def)
qed

lemma ex_seq_BuildPopulations:
  "BuildPopulations ex_seq_env ''ckpt-1'' ex_options (tasks_to_run ex_seq_env) =
     Inr (50,
        replicate 40 [[[Val (1071 / 10), Val (1071 / 10), Val (1071 / 10)]]] @
        replicate 10 [[[Val (2193 / 20), Val (2193 / 20), Val (2193 / 20)]]],
        replicate 50 [[[Val 255, Val 255, Val 255]]], Map.empty, 44)"
proof -
  have bs: "batch_size ex_seq_gan \<noteq> 0" by (simp add: ex_seq_gan_def)
  have g: "StrV ''GAN'' \<in> set (map StrV (SUPPORTED_GANS ex_seq_env))"
    by (simp add: SUPPORTED_GANS_def)
  show ?thesis
    unfolding BuildPopulations_def Let_def
    by (simp only: getitem_def ex_options_simps option.case and_then_Inr g not_True_eq_False
        not_not if_False ex_seq_num_test_examples ex_seq_fields ex_real_images bs ex_seq_num_batches
        ex_seq_generate)
       (simp add: ex_seq_in_session ex_seq_materialize)
qed


section \<open>The claims\<close>

subsection \<open>C1: a checkpoint that generates NaN\<close>




subsection \<open>C2: checkpoints already in the table\<close>

text \<open>
  Claim C2. With a header of distinct column names and a score file that is absent or
  starts with the expected header, a sweep that has completed leaves a table on which the
  next sweep over the same checkpoints evaluates nothing and which it leaves as it is.
  More generally, whenever the table passes the schema check, a checkpoint that is the
  first field of one of its rows is skipped: the loop goes on without calling
  \<open>RunCheckpointEval\<close> and without writing a row.
\<close>

theorem RunTaskEval_twice:
  assumes dist: "distinct (csv_header env)"
      and f0: "file = None \<or> (\<exists>rows. file = Some (csv_header env # rows))"
      and run1: "RunTaskEval env options file = (None, Some file1, evaluated1)"
  shows "RunTaskEval env options (Some file1) = (None, Some file1, [])
     \<and> (\<forall>rows fin c rest st.
          finished_checkpoints (python3 env) (csv_header env) (csv_header env # rows) = Inr fin \<longrightarrow>
          (\<exists>row\<in>set rows. row \<noteq> [] \<and> hd row = c) \<longrightarrow>
          sweep_loop (\<lambda>checkpoint_path. RunCheckpointEval env checkpoint_path options (tasks_to_run env))
            options (task_headers (tasks_to_run env)) (GetAllTrainingParams env) fin (c # rest) st =
          sweep_loop (\<lambda>checkpoint_path. RunCheckpointEval env checkpoint_path options (tasks_to_run env))
            options (task_headers (tasks_to_run env)) (GetAllTrainingParams env) fin rest st)"
proof -
  let ?eval = "\<lambda>checkpoint_path. RunCheckpointEval env checkpoint_path options (tasks_to_run env)"
  from run1 obtain d where d: "options ''dataset'' = Some d"
    by (cases "options ''dataset''") (simp_all add: RunTaskEval_def)
  from run1 d obtain cps where cps: "get_checkpoint_state env = Some cps"
    by (cases "get_checkpoint_state env")
       (auto simp: RunTaskEval_def sweep_def Let_def split: sum.splits error.splits prod.splits)
  from run1 d cps have s: "sweep (python3 env) (csv_header env) (task_headers (tasks_to_run env))
      (GetAllTrainingParams env) ?eval options (Some cps) file = (None, Some file1, evaluated1)"
    by (simp add: RunTaskEval_def)
  have "sweep (python3 env) (csv_header env) (task_headers (tasks_to_run env))
      (GetAllTrainingParams env) ?eval options (Some cps) (Some file1) = (None, Some file1, [])"
    using _ dist f0 s by (rule sweep_twice) (simp add: csv_header_def)
  then have a: "RunTaskEval env options (Some file1) = (None, Some file1, [])"
    by (simp add: RunTaskEval_def d cps)
  have b: "sweep_loop ?eval options (task_headers (tasks_to_run env)) (GetAllTrainingParams env)
             fin (c # rest) st =
           sweep_loop ?eval options (task_headers (tasks_to_run env)) (GetAllTrainingParams env)
             fin rest st"
    if fc: "finished_checkpoints (python3 env) (csv_header env) (csv_header env # rows) = Inr fin"
      and row: "\<exists>row\<in>set rows. row \<noteq> [] \<and> hd row = c"
    for rows fin c rest st
  proof -
    from finished_checkpoints_Inr [OF dist csv_header_facts fc] row
    have "Some c \<in> fin" by auto
    then show ?thesis by (rule sweep_loop_skip)
  qed
  from a b show ?thesis by blast
qed

theorem RunTaskEval_twice_witness:
  "distinct (csv_header (ex_env True [''ckpt-1'', ''ckpt-nan'', ''ckpt-2'']))
   \<and> RunTaskEval (ex_env True [''ckpt-1'', ''ckpt-nan'', ''ckpt-2'']) ex_options None =
       (None,
        Some [csv_header (ex_env True [''ckpt-1'', ''ckpt-nan'', ''ckpt-2'']),
              ex_row ''ckpt-1'' ex_metrics,
              ex_row ''ckpt-nan'' (replicate 17 ''31337.000''),
              ex_row ''ckpt-2'' ex_metrics],
        [''ckpt-1'', ''ckpt-nan'', ''ckpt-2''])
   \<and> RunTaskEval (ex_env True [''ckpt-1'', ''ckpt-nan'', ''ckpt-2'']) ex_options
        (Some [csv_header (ex_env True [''ckpt-1'', ''ckpt-nan'', ''ckpt-2'']),
               ex_row ''ckpt-1'' ex_metrics,
               ex_row ''ckpt-nan'' (replicate 17 ''31337.000''),
               ex_row ''ckpt-2'' ex_metrics]) =
       (None,
        Some [csv_header (ex_env True [''ckpt-1'', ''ckpt-nan'', ''ckpt-2'']),
              ex_row ''ckpt-1'' ex_metrics,
              ex_row ''ckpt-nan'' (replicate 17 ''31337.000''),
              ex_row ''ckpt-2'' ex_metrics],
        [])"
proof -
  let ?E = "ex_env True [''ckpt-1'', ''ckpt-nan'', ''ckpt-2'']"
  have f0: "(None :: csv_file option) = None \<or> (\<exists>rows. None = Some (csv_header ?E # rows))"
    by simp
  from RunTaskEval_twice [OF ex_distinct_header f0 ex_run_fresh]
  show ?thesis using ex_distinct_header ex_run_fresh by blast
qed

subsection \<open>C3: the header and the rows\<close>

text \<open>
  Claim C3, amended. The header is the five fixed columns, then the metric names task by
  task in the order of the task list, sorted within each task (not over all tasks), then
  the sorted, duplicate-free hyperparameter names. A table created by the sweep starts
  with this header. Every row written has one field per header column; its metric fields
  follow the header's metric order, each \<open>"%.3f"\<close> of the result or of the default, and
  for a finite value that is a fixed-point string with three decimals.
\<close>

theorem csv_header_and_rows:
  "csv_header env =
     [''checkpoint_path'', ''model'', ''dataset'', ''tf_seed'', ''sample_id''] @
     [''inception_score'', ''fid_score'', ''ms_ssim'',
      ''fake_accuracy'', ''test_accuracy'', ''test_d_loss'', ''train_accuracy'', ''train_d_loss'',
      ''fractal_dimension'', ''kid_score'',
      ''log_condition_number_count'', ''log_condition_number_mean'', ''log_condition_number_std'',
      ''gilbo'', ''gilbo_eval_consistency'', ''gilbo_self_consistency'',
      ''gilbo_train_consistency''] @
     GetAllTrainingParams env
   \<and> task_headers (tasks_to_run env) =
       concat (map (\<lambda>t. sort (remdups (MetricsList t))) (tasks_to_run env))
   \<and> sorted (GetAllTrainingParams env) \<and> distinct (GetAllTrainingParams env)
   \<and> (\<forall>r f ev. RunTaskEval env options None = (r, Some f, ev) \<longrightarrow>
         f \<noteq> [] \<and> hd f = csv_header env)
   \<and> (\<forall>row. output_row options (task_headers (tasks_to_run env)) (GetAllTrainingParams env)
                checkpoint_path result_dict default_value = Inr row \<longrightarrow>
         length row = length (csv_header env)
       \<and> hd row = checkpoint_path
       \<and> take (length (task_headers (tasks_to_run env))) (drop 5 row) =
           map (\<lambda>task_metric. fmt3 (case result_dict task_metric of
                                       None \<Rightarrow> default_value | Some x \<Rightarrow> x))
             (task_headers (tasks_to_run env)))
   \<and> (\<forall>x. fixed_point3 (fmt3 (Val x)))"
proof -
  have a: "csv_header env =
     [''checkpoint_path'', ''model'', ''dataset'', ''tf_seed'', ''sample_id''] @
     [''inception_score'', ''fid_score'', ''ms_ssim'',
      ''fake_accuracy'', ''test_accuracy'', ''test_d_loss'', ''train_accuracy'', ''train_d_loss'',
      ''fractal_dimension'', ''kid_score'',
      ''log_condition_number_count'', ''log_condition_number_mean'', ''log_condition_number_std'',
      ''gilbo'', ''gilbo_eval_consistency'', ''gilbo_self_consistency'',
      ''gilbo_train_consistency''] @
     GetAllTrainingParams env"
    by (simp add: csv_header_def fixed_columns_def task_headers_tasks_to_run)
  have b: "task_headers (tasks_to_run env) =
       concat (map (\<lambda>t. sort (remdups (MetricsList t))) (tasks_to_run env))"
    by (simp only: task_headers_def sorted_set_eq)
  have c: "sorted (GetAllTrainingParams env) \<and> distinct (GetAllTrainingParams env)"
    unfolding GetAllTrainingParams_def by (rule sorted_set_sorted)
  have d: "f \<noteq> [] \<and> hd f = csv_header env"
    if "RunTaskEval env options None = (r, Some f, ev)" for r f ev
  proof (cases "options ''dataset''")
    case None
    with that show ?thesis by (simp add: RunTaskEval_def)
  next
    case (Some ds)
    with that show ?thesis by (simp add: RunTaskEval_def sweep_fresh_header)
  qed
  have e: "length row = length (csv_header env) \<and> hd row = checkpoint_path
       \<and> take (length (task_headers (tasks_to_run env))) (drop 5 row) =
           map (\<lambda>task_metric. fmt3 (case result_dict task_metric of
                                       None \<Rightarrow> default_value | Some x \<Rightarrow> x))
             (task_headers (tasks_to_run env))"
    if "output_row options (task_headers (tasks_to_run env)) (GetAllTrainingParams env)
                checkpoint_path result_dict default_value = Inr row" for row
    using output_row_shape [OF that]
    by (simp add: csv_header_def fixed_columns_def metric_columns_def)
  have f: "fixed_point3 (fmt3 (Val x))" for x by (simp add: fmt3_real_fixed)
  from a b c d e f show ?thesis by blast
qed

theorem csv_header_and_rows_witness:
  "csv_header (ex_env True [''ckpt-1'', ''ckpt-nan'', ''ckpt-2'']) =
     [''checkpoint_path'', ''model'', ''dataset'', ''tf_seed'', ''sample_id''] @
     [''inception_score'', ''fid_score'', ''ms_ssim'',
      ''fake_accuracy'', ''test_accuracy'', ''test_d_loss'', ''train_accuracy'', ''train_d_loss'',
      ''fractal_dimension'', ''kid_score'',
      ''log_condition_number_count'', ''log_condition_number_mean'', ''log_condition_number_std'',
      ''gilbo'', ''gilbo_eval_consistency'', ''gilbo_self_consistency'',
      ''gilbo_train_consistency''] @
     [''architecture'', ''beta1'', ''lambda'']
   \<and> hd [csv_header (ex_env True [''ckpt-1'', ''ckpt-nan'', ''ckpt-2'']),
          ex_row ''ckpt-1'' ex_metrics,
          ex_row ''ckpt-nan'' (replicate 17 ''31337.000''),
          ex_row ''ckpt-2'' ex_metrics] =
       csv_header (ex_env True [''ckpt-1'', ''ckpt-nan'', ''ckpt-2''])
   \<and> length (ex_row ''ckpt-1'' ex_metrics) =
       length (csv_header (ex_env True [''ckpt-1'', ''ckpt-nan'', ''ckpt-2'']))
   \<and> take 17 (drop 5 (ex_row ''ckpt-1'' ex_metrics)) =
       map (\<lambda>task_metric. fmt3 (case ex_result task_metric of None \<Rightarrow> Val (- 1) | Some x \<Rightarrow> x))
         (task_headers (tasks_to_run (ex_env True [''ckpt-1'', ''ckpt-nan'', ''ckpt-2''])))
   \<and> fixed_point3 (fmt3 (Val 12.3456))
   \<and> fmt3 (Val 12.3456) = ''12.346''"
proof -
  let ?E = "ex_env True [''ckpt-1'', ''ckpt-nan'', ''ckpt-2'']"
  note t = csv_header_and_rows [of ?E ex_options "''ckpt-1''" ex_result "Val (- 1)"]
  have row: "output_row ex_options (task_headers (tasks_to_run ?E)) (GetAllTrainingParams ?E)
      ''ckpt-1'' ex_result (Val (- 1)) = Inr (ex_row ''ckpt-1'' ex_metrics)"
    by (simp add: ex_output_row ex_metric_columns_ok)
  have len: "length (task_headers (tasks_to_run ?E)) = 17"
    by (simp add: task_headers_tasks_to_run)
  from t have "csv_header ?E =
     [''checkpoint_path'', ''model'', ''dataset'', ''tf_seed'', ''sample_id''] @
     [''inception_score'', ''fid_score'', ''ms_ssim'',
      ''fake_accuracy'', ''test_accuracy'', ''test_d_loss'', ''train_accuracy'', ''train_d_loss'',
      ''fractal_dimension'', ''kid_score'',
      ''log_condition_number_count'', ''log_condition_number_mean'', ''log_condition_number_std'',
      ''gilbo'', ''gilbo_eval_consistency'', ''gilbo_self_consistency'',
      ''gilbo_train_consistency''] @
     [''architecture'', ''beta1'', ''lambda'']"
    by (simp only: ex_params)
  moreover from t ex_run_fresh have "hd [csv_header ?E,
          ex_row ''ckpt-1'' ex_metrics,
          ex_row ''ckpt-nan'' (replicate 17 ''31337.000''),
          ex_row ''ckpt-2'' ex_metrics] = csv_header ?E"
    by blast
  moreover from t row have "length (ex_row ''ckpt-1'' ex_metrics) = length (csv_header ?E)"
    by blast
  moreover from t row have "take (length (task_headers (tasks_to_run ?E)))
        (drop 5 (ex_row ''ckpt-1'' ex_metrics)) =
       map (\<lambda>task_metric. fmt3 (case ex_result task_metric of None \<Rightarrow> Val (- 1) | Some x \<Rightarrow> x))
         (task_headers (tasks_to_run ?E))"
    by blast
  moreover from t have "fixed_point3 (fmt3 (Val 12.3456))" by blast
  moreover have "fmt3 (Val 12.3456) = ''12.346''"
    by (simp add: fmt3_real_def round_half_even_def str_nat.simps digit_char_def)
  ultimately show ?thesis by (simp only: len) 
qed

text \<open>
  Claim C3 as stated fails on the metric columns: they start with \<open>inception_score\<close>,
  \<open>fid_score\<close> and are not in sorted order.
\<close>

theorem csv_header_metrics_not_sorted_counterexample:
  "take 17 (drop 5 (csv_header (ex_env True []))) =
     [''inception_score'', ''fid_score'', ''ms_ssim'',
      ''fake_accuracy'', ''test_accuracy'', ''test_d_loss'', ''train_accuracy'', ''train_d_loss'',
      ''fractal_dimension'', ''kid_score'',
      ''log_condition_number_count'', ''log_condition_number_mean'', ''log_condition_number_std'',
      ''gilbo'', ''gilbo_eval_consistency'', ''gilbo_self_consistency'',
      ''gilbo_train_consistency'']
   \<and> \<not> sorted (take 17 (drop 5 (csv_header (ex_env True []))))
   \<and> take 17 (drop 5 (csv_header (ex_env True []))) \<noteq>
       sorted_set (concat (map MetricsList (tasks_to_run (ex_env True []))))"
proof -
  have a: "take 17 (drop 5 (csv_header (ex_env True []))) =
     [''inception_score'', ''fid_score'', ''ms_ssim'',
      ''fake_accuracy'', ''test_accuracy'', ''test_d_loss'', ''train_accuracy'', ''train_d_loss'',
      ''fractal_dimension'', ''kid_score'',
      ''log_condition_number_count'', ''log_condition_number_mean'', ''log_condition_number_std'',
      ''gilbo'', ''gilbo_eval_consistency'', ''gilbo_self_consistency'',
      ''gilbo_train_consistency'']"
    by (simp add: ex_csv_header fixed_columns_def)
  have b: "\<not> sorted (take 17 (drop 5 (csv_header (ex_env True []))))"
    unfolding a by simp
  have "sorted (sorted_set (concat (map MetricsList (tasks_to_run (ex_env True [])))))"
    by (simp add: sorted_set_sorted)
  with b have c: "take 17 (drop 5 (csv_header (ex_env True []))) \<noteq>
       sorted_set (concat (map MetricsList (tasks_to_run (ex_env True []))))"
    by metis
  from a b c show ?thesis by blast
qed

subsection \<open>C4: the sizes of the populations\<close>

text \<open>
  Claim C4. Whenever a checkpoint evaluation reaches the \<open>RunAfterSession\<close> hooks, with
  \<open>gan\<close> the model that \<open>create_gan\<close> returned for the options and the checkpoint and
  \<open>real_images\<close> the loaded test population: the number of test examples \<open>n\<close> is the
  requested number rounded down to a multiple of \<open>INCEPTION_BATCH\<close> (10000 when none is
  requested); the generation loop has run \<open>ceil(n / batch_size)\<close> times from the generator
  seeded with 42 and kept every batch whole, which makes at least \<open>n\<close> images and, for a
  model whose batches have \<open>batch_size\<close> images, a whole number of batches and fewer than
  \<open>n + batch_size\<close> images; the fake population is the first \<open>n\<close> of these images
  (tiled when the populations have one channel) times 255; the in-session hooks ran from
  the generator state these batches left; and the fake and the real population both have
  \<open>n\<close> images and the same shape.
\<close>

theorem BuildPopulations_population_sizes:
  fixes env :: "('z, 's) collaborators"
  assumes "BuildPopulations env checkpoint_path options tasks = Inr (n, fake, real', rd, s2)"
  shows "\<exists>gan_type dataset real_images (gan :: ('z, 's) gan) samples s1.
       options ''gan_type'' = Some gan_type
     \<and> options ''dataset'' = Some dataset
     \<and> num_test_examples_of env dataset options = Inr n
     \<and> INCEPTION_BATCH = 50
     \<and> n mod INCEPTION_BATCH = 0
     \<and> (\<forall>m. (GetDatasetParameters env dataset ++ options) ''eval_test_samples'' =
                 Some (IntV m) \<longrightarrow> n = m - m mod INCEPTION_BATCH)
     \<and> ((GetDatasetParameters env dataset ++ options) ''eval_test_samples'' = None
             \<longrightarrow> n = 10000)
     \<and> GetRealImages (load_dataset env) dataset ''test'' n True = Inr real_images
     \<and> create_gan env gan_type dataset options checkpoint_path = Inr gan
     \<and> 0 < batch_size gan
     \<and> generate_samples gan (nat \<lceil>real_of_int n / real (batch_size gan)\<rceil>) []
          (random_seed env 42) = Inr (samples, s1)
     \<and> samples = map (fake_images gan)
          (z_samples gan (nat \<lceil>real_of_int n / real (batch_size gan)\<rceil>) (random_seed env 42))
     \<and> length samples = nat \<lceil>real_of_int n / real (batch_size gan)\<rceil>
     \<and> n \<le> int (length (concat samples))
     \<and> ((\<forall>z. length (fake_images gan z) = batch_size gan) \<longrightarrow>
           length (concat samples) = length samples * batch_size gan
         \<and> int (length (concat samples)) < n + int (batch_size gan))
     \<and> fake = scale_images 255
          (if shape3 real_images = Inr 1 then tile3 (take (nat n) (concat samples))
           else take (nat n) (concat samples))
     \<and> real' = (if shape3 real_images = Inr 1 then tile3 real_images else real_images)
     \<and> run_in_session tasks options gan real_images Map.empty s1 = Inr (rd, s2)
     \<and> int (length fake) = n
     \<and> int (length real_images) = n
     \<and> int (length real') = n
     \<and> shape fake = shape real'"
proof -
  from BuildPopulations_Inr [OF assms]
  obtain gan_type dataset real_images and gan :: "('z, 's) gan" and samples s1 where
    gt: "options ''gan_type'' = Some gan_type" and
    ds: "options ''dataset'' = Some dataset" and
    nt: "num_test_examples_of env dataset options = Inr n" and
    gr: "GetRealImages (load_dataset env) dataset ''test'' n True = Inr real_images" and
    cg: "create_gan env gan_type dataset options checkpoint_path = Inr gan" and
    bs: "batch_size gan \<noteq> 0" and
    gs: "generate_samples gan (nat \<lceil>real_of_int n / real (batch_size gan)\<rceil>) []
          (random_seed env 42) = Inr (samples, s1)" and
    ri: "run_in_session tasks options gan real_images Map.empty s1 = Inr (rd, s2)" and
    mt: "materialize samples n real_images = Inr (fake, real')"
    by blast
  let ?nb = "nat \<lceil>real_of_int n / real (batch_size gan)\<rceil>"
  let ?F = "take (nat n) (concat samples)"
  note n = num_test_examples_of_Inr [OF nt]
  have lr: "int (length real_images) = n" using gr by (rule GetRealImages_required)
  then have n0: "0 \<le> n" by linarith
  from materialize_Inr [OF mt] have sh: "shape ?F = shape real_images" by blast
  note fr = materialize_Inr_channels [OF mt]
  have lF: "length ?F = length real_images" using sh by (rule shape_length)
  have lf: "int (length fake) = n" using fr lF lr by simp
  have lr': "int (length real') = n" using fr lr by simp
  have shp: "shape fake = shape real'"
  proof (cases "shape3 real_images = Inr 1")
    case True
    with fr show ?thesis using shape_tile3_cong [OF sh] by simp
  next
    case False
    with fr show ?thesis using sh by simp
  qed
  have sm: "samples = map (fake_images gan) (z_samples gan ?nb (random_seed env 42))"
    using generate_samples_Inr [OF gs] by simp
  have ls: "length samples = ?nb" unfolding sm by simp
  have ge: "n \<le> int (length (concat samples))"
  proof -
    have "length ?F \<le> length (concat samples)" by simp
    with lF lr show ?thesis by linarith
  qed
  have up: "(\<forall>z. length (fake_images gan z) = batch_size gan) \<longrightarrow>
               length (concat samples) = length samples * batch_size gan
             \<and> int (length (concat samples)) < n + int (batch_size gan)"
  proof
    assume a: "\<forall>z. length (fake_images gan z) = batch_size gan"
    have e: "length (concat samples) = ?nb * batch_size gan"
      unfolding sm using length_concat_batches [OF a] by simp
    moreover have "int (?nb * batch_size gan) < max n 0 + int (batch_size gan)"
      using bs by (intro ceil_batches_upper) simp
    ultimately have "int (length (concat samples)) < n + int (batch_size gan)"
      using n0 by simp
    with e ls show "length (concat samples) = length samples * batch_size gan
             \<and> int (length (concat samples)) < n + int (batch_size gan)" by simp
  qed
  from bs have bp: "0 < batch_size gan" by simp
  have ib: "INCEPTION_BATCH = 50" by (simp add: INCEPTION_BATCH_def)
  note n1 = n [THEN conjunct1]
   and n2 = n [THEN conjunct2, THEN conjunct1]
   and n3 = n [THEN conjunct2, THEN conjunct2]
  from fr have f: "fake = scale_images 255
          (if shape3 real_images = Inr 1 then tile3 ?F else ?F)"
    and r: "real' = (if shape3 real_images = Inr 1 then tile3 real_images else real_images)"
    by blast+
  show ?thesis
    apply (rule exI [of _ gan_type], rule exI [of _ dataset], rule exI [of _ real_images],
        rule exI [of _ gan], rule exI [of _ samples], rule exI [of _ s1])
    apply (intro conjI)
                       apply (fact gt ds nt ib n1 n2 n3 gr cg bp gs sm ls ge up f r ri lf lr lr' shp)+
    done
qed

theorem BuildPopulations_population_sizes_witness:
  "BuildPopulations ex_seq_env ''ckpt-1'' ex_options (tasks_to_run ex_seq_env) =
     Inr (50,
        replicate 40 [[[Val (1071 / 10), Val (1071 / 10), Val (1071 / 10)]]] @
        replicate 10 [[[Val (2193 / 20), Val (2193 / 20), Val (2193 / 20)]]],
        replicate 50 [[[Val 255, Val 255, Val 255]]], Map.empty, 44)
   \<and> (GetDatasetParameters ex_seq_env (StrV ''mnist'') ++ ex_options) ''eval_test_samples'' =
        Some (IntV 70)
   \<and> (50 :: int) = 70 - 70 mod INCEPTION_BATCH
   \<and> (50 :: int) mod INCEPTION_BATCH = 0
   \<and> batch_size ex_seq_gan = 40
   \<and> generate_samples ex_seq_gan 2 [] 42 =
        Inr ([replicate 40 [[[Val (21 / 50)]]], replicate 40 [[[Val (43 / 100)]]]], 44)
   \<and> length (concat [replicate 40 [[[Val (21 / 50)]]], replicate 40 [[[Val (43 / 100) :: npfloat]]]])
        = 2 * 40
   \<and> replicate 40 [[[Val (1071 / 10), Val (1071 / 10), Val (1071 / 10)]]] @
     replicate 10 [[[Val (2193 / 20), Val (2193 / 20), Val (2193 / 20)]]] =
       scale_images 255 (tile3 (take (nat 50)
         (concat [replicate 40 [[[Val (21 / 50)]]], replicate 40 [[[Val (43 / 100)]]]])))
   \<and> int (length (replicate 40 [[[Val (1071 / 10), Val (1071 / 10), Val (1071 / 10)]]] @
                  replicate 10 [[[Val (2193 / 20), Val (2193 / 20), Val (2193 / 20) :: npfloat]]])) = 50
   \<and> int (length (replicate 50 [[[Val 255, Val 255, Val 255 :: npfloat]]])) = 50
   \<and> shape (replicate 40 [[[Val (1071 / 10), Val (1071 / 10), Val (1071 / 10)]]] @
            replicate 10 [[[Val (2193 / 20), Val (2193 / 20), Val (2193 / 20)]]]) =
       shape (replicate 50 [[[Val 255, Val 255, Val 255]]])"
proof -
  let ?fake = "replicate 40 [[[Val (1071 / 10), Val (1071 / 10), Val (1071 / 10)]]] @
        replicate 10 [[[Val (2193 / 20), Val (2193 / 20), Val (2193 / 20) :: npfloat]]]"
  let ?real = "replicate 50 [[[Val 255, Val 255, Val 255 :: npfloat]]]"
  from BuildPopulations_population_sizes [OF ex_seq_BuildPopulations]
  obtain gan_type dataset real_images and gan :: "(nat, nat) gan" and samples s1 where
    gt: "ex_options ''gan_type'' = Some gan_type" and
    ds: "ex_options ''dataset'' = Some dataset" and
    md: "(50 :: int) mod INCEPTION_BATCH = 0" and
    rq: "\<forall>m. (GetDatasetParameters ex_seq_env dataset ++ ex_options) ''eval_test_samples'' =
                 Some (IntV m) \<longrightarrow> 50 = m - m mod INCEPTION_BATCH" and
    gr: "GetRealImages (load_dataset ex_seq_env) dataset ''test'' 50 True = Inr real_images" and
    cg: "create_gan ex_seq_env gan_type dataset ex_options ''ckpt-1'' = Inr gan" and
    gs: "generate_samples gan (nat \<lceil>real_of_int 50 / real (batch_size gan)\<rceil>) []
          (random_seed ex_seq_env 42) = Inr (samples, s1)" and
    lc: "(\<forall>z. length (fake_images gan z) = batch_size gan) \<longrightarrow>
           length (concat samples) = length samples * batch_size gan
         \<and> int (length (concat samples)) < 50 + int (batch_size gan)" and
    f: "?fake = scale_images 255
          (if shape3 real_images = Inr 1 then tile3 (take (nat 50) (concat samples))
           else take (nat 50) (concat samples))" and
    lf: "int (length ?fake) = 50" and
    lr: "int (length ?real) = 50" and
    sh: "shape ?fake = shape ?real"
    by (elim exE conjE) (rule that)
  from ds have d: "dataset = StrV ''mnist''" by (simp add: ex_options_simps)
  from cg have g: "gan = ex_seq_gan" by (simp add: ex_seq_fields)
  from gr d have ri: "real_images = replicate 50 [[[Val 255]]]"
    by (simp add: ex_seq_fields ex_real_images)
  from gs have "generate_samples ex_seq_gan 2 [] 42 = Inr (samples, s1)"
    unfolding g by (simp only: ex_seq_num_batches ex_seq_fields)
  then have sm: "samples = [replicate 40 [[[Val (21 / 50)]]], replicate 40 [[[Val (43 / 100)]]]]"
    and s1: "s1 = 44"
    by (simp_all add: ex_seq_generate)
  have m: "(GetDatasetParameters ex_seq_env (StrV ''mnist'') ++ ex_options)
             ''eval_test_samples'' = Some (IntV 70)"
    by (simp add: ex_seq_env_def ex_env_def map_add_def ex_options_simps)
  have r70: "(50 :: int) = 70 - 70 mod INCEPTION_BATCH"
    by (rule rq [unfolded d, THEN spec, THEN mp, OF m])
  have b: "batch_size ex_seq_gan = 40" by (simp add: ex_seq_gan_def)
  have c1: "shape3 (replicate 50 [[[Val 255 :: npfloat]]]) = Inr 1"
    by (simp add: shape3_def shape_replicate image_shape_def)
  from f have f': "?fake = scale_images 255 (tile3 (take (nat 50)
         (concat [replicate 40 [[[Val (21 / 50)]]], replicate 40 [[[Val (43 / 100)]]]])))"
    unfolding ri sm c1 by (simp only: if_True refl)
  have "\<forall>z. length (fake_images ex_seq_gan z) = batch_size ex_seq_gan"
    by (simp add: ex_seq_gan_def)
  with lc g sm b have l: "length (concat [replicate 40 [[[Val (21 / 50)]]],
       replicate 40 [[[Val (43 / 100) :: npfloat]]]]) = 2 * 40"
    by simp
  from gs have gs': "generate_samples ex_seq_gan 2 [] 42 =
        Inr ([replicate 40 [[[Val (21 / 50)]]], replicate 40 [[[Val (43 / 100)]]]], 44)"
    unfolding g sm s1 by (simp only: ex_seq_num_batches ex_seq_fields)
  from ex_seq_BuildPopulations m r70 md b gs' l f' lf lr sh show ?thesis by blast
qed

subsection \<open>C5: a table with other columns\<close>

text \<open>
  Claim C5 says that a table whose columns no longer match the expected ones is rewritten
  with the new header and every checkpoint recomputed. The check sits inside the loop over
  the data rows (lines 860-862), so a stale table that has a header and no row is never
  checked: the checkpoints are evaluated, but their rows are appended under the old header
  \<open>[a, b]\<close>. On the next run these rows are longer than the header, and under Python 3
  sorting their keys raises TypeError, which is not caught. With one data row in the stale
  table the mismatch is found and the header rewritten, as the claim says.
\<close>

theorem stale_header_without_rows_kept:
  "csv_header (ex_env True [''ckpt-1'']) \<noteq> [''a'', ''b'']
   \<and> RunTaskEval (ex_env True [''ckpt-1'']) ex_options (Some [[''a'', ''b'']]) =
        (None, Some [[''a'', ''b''], ex_row ''ckpt-1'' ex_metrics], [''ckpt-1''])
   \<and> RunTaskEval (ex_env True [''ckpt-1'']) ex_options
        (Some [[''a'', ''b''], ex_row ''ckpt-1'' ex_metrics]) =
        (Some TypeError, Some [[''a'', ''b''], ex_row ''ckpt-1'' ex_metrics], [])
   \<and> RunTaskEval (ex_env True [''ckpt-1'']) ex_options (Some [[''a'', ''b''], [''x'', ''y'']]) =
        (None, Some [csv_header (ex_env True [''ckpt-1'']), ex_row ''ckpt-1'' ex_metrics],
         [''ckpt-1''])"
proof -
  let ?E = "ex_env True [''ckpt-1'']"
  have a: "csv_header ?E \<noteq> [''a'', ''b'']"
    by (simp add: ex_csv_header fixed_columns_def)
  have b: "RunTaskEval ?E ex_options (Some [[''a'', ''b'']]) =
        (None, Some [[''a'', ''b''], ex_row ''ckpt-1'' ex_metrics], [''ckpt-1''])"
    by (simp add: RunTaskEval_def sweep_def ex_options_simps ex_env_fields finished_checkpoints_def
      ex_sweep_step Let_def del: sweep_loop.simps(2))
  have k: "row_keys [''a'', ''b''] (ex_row ''ckpt-1'' ex_metrics) = [Some ''a'', Some ''b'', None]"
    by (simp add: row_keys_def ex_row_def)
  have ne: "ex_row ''ckpt-1'' ex_metrics \<noteq> []" by (simp add: ex_row_def)
  have c: "RunTaskEval ?E ex_options (Some [[''a'', ''b''], ex_row ''ckpt-1'' ex_metrics]) =
        (Some TypeError, Some [[''a'', ''b''], ex_row ''ckpt-1'' ex_metrics], [])"
    by (simp add: RunTaskEval_def sweep_def ex_options_simps ex_env_fields finished_checkpoints_def
      ne k Let_def del: sweep_loop.simps(2))
  have k2: "row_keys [''a'', ''b''] [''x'', ''y''] = [Some ''a'', Some ''b'']"
    by (simp add: row_keys_def)
  have s: "sort (map Some (csv_header ?E)) \<noteq> sort [Some ''a'', Some ''b'']"
    by (rule sort_neq_length) (simp add: ex_csv_header fixed_columns_def)
  have d: "RunTaskEval ?E ex_options (Some [[''a'', ''b''], [''x'', ''y'']]) =
        (None, Some [csv_header ?E, ex_row ''ckpt-1'' ex_metrics], [''ckpt-1''])"
    by (simp add: RunTaskEval_def sweep_def ex_options_simps ex_env_fields finished_checkpoints_def
      k2 s ex_sweep_step Let_def del: sweep_loop.simps(2) sort_key_simps)
  from a b c d show ?thesis by blast
qed

subsection \<open>C6: one-channel populations\<close>

text \<open>
  Claim C6. Let \<open>gan\<close> be the model that \<open>create_gan\<close> returned and \<open>generated\<close> the
  first \<open>n\<close> images of the batches it generated. When the real test population has
  exactly one channel, shape \<open>(N, H, W, 1)\<close>, so has \<open>generated\<close>, and the populations
  handed to the \<open>RunAfterSession\<close> hooks both have shape \<open>(N, H, W, 3)\<close>: the real one is
  \<open>np.tile\<close> of the loaded one, every pixel \<open>[v]\<close> having become \<open>[v, v, v]\<close>, and the
  fake one is \<open>np.tile\<close> of \<open>generated\<close> times 255, every generated pixel \<open>[a]\<close> having
  become \<open>[255 * a, 255 * a, 255 * a]\<close>.
\<close>

theorem BuildPopulations_single_channel:
  fixes env :: "('z, 's) collaborators" and gan :: "('z, 's) gan"
  assumes bp: "BuildPopulations env checkpoint_path options tasks = Inr (n, fake, real', rd, s2)"
      and gt: "options ''gan_type'' = Some gan_type"
      and ds: "options ''dataset'' = Some dataset"
      and gr: "GetRealImages (load_dataset env) dataset ''test'' n True = Inr real_images"
      and cg: "create_gan env gan_type dataset options checkpoint_path = Inr gan"
      and gen: "generated = take (nat n) (concat (map (fake_images gan)
                  (z_samples gan (nat \<lceil>real_of_int n / real (batch_size gan)\<rceil>)
                     (random_seed env 42))))"
      and sh: "shape real_images = [N, H, W, 1]"
  shows "shape generated = [N, H, W, 1]
     \<and> shape real' = [N, H, W, 3]
     \<and> shape fake = [N, H, W, 3]
     \<and> real' = tile3 real_images
     \<and> fake = scale_images 255 (tile3 generated)
     \<and> (\<forall>i j k v. i < length real_images \<longrightarrow> j < length (real_images ! i) \<longrightarrow>
           k < length (real_images ! i ! j) \<longrightarrow> real_images ! i ! j ! k = [v] \<longrightarrow>
           real' ! i ! j ! k = [v, v, v])
     \<and> (\<forall>i j k a. i < length generated \<longrightarrow> j < length (generated ! i) \<longrightarrow>
           k < length (generated ! i ! j) \<longrightarrow> generated ! i ! j ! k = [Val a] \<longrightarrow>
           fake ! i ! j ! k = [Val (255 * a), Val (255 * a), Val (255 * a)])
     \<and> (\<forall>i j k v. i < length generated \<longrightarrow> j < length (generated ! i) \<longrightarrow>
           k < length (generated ! i ! j) \<longrightarrow> generated ! i ! j ! k = [v] \<longrightarrow>
           fake ! i ! j ! k = [np_scale 255 v, np_scale 255 v, np_scale 255 v])"
proof -
  from BuildPopulations_Inr [OF bp] obtain gan_type' dataset' real_images'
      and gan' :: "('z, 's) gan" and samples s1 where
    gt': "options ''gan_type'' = Some gan_type'" and
    ds': "options ''dataset'' = Some dataset'" and
    gr': "GetRealImages (load_dataset env) dataset' ''test'' n True = Inr real_images'" and
    cg': "create_gan env gan_type' dataset' options checkpoint_path = Inr gan'" and
    gs: "generate_samples gan' (nat \<lceil>real_of_int n / real (batch_size gan')\<rceil>) []
          (random_seed env 42) = Inr (samples, s1)" and
    mt: "materialize samples n real_images' = Inr (fake, real')"
    by blast
  from ds ds' have d: "dataset' = dataset" by simp
  from gt gt' have g: "gan_type' = gan_type" by simp
  from gr gr' d have ri: "real_images' = real_images" by simp
  from cg cg' d g have gn: "gan' = gan" by simp
  from mt ri have mt': "materialize samples n real_images = Inr (fake, real')" by simp
  have sm: "samples = map (fake_images gan)
       (z_samples gan (nat \<lceil>real_of_int n / real (batch_size gan)\<rceil>) (random_seed env 42))"
    using generate_samples_Inr [OF gs] gn by simp
  have F: "take (nat n) (concat samples) = generated" using gen sm by simp
  from materialize_Inr [OF mt'] obtain c :: nat where
    shF: "shape generated = shape real_images" and
    c: "shape3 real_images = Inr c" and
    f: "fake = scale_images 255 (if c = 1 then tile3 generated else generated)" and
    r: "real' = (if c = 1 then tile3 real_images else real_images)"
    unfolding F by blast
  from c sh have c1: "c = 1" by (simp add: shape3_def)
  have r': "real' = tile3 real_images" using r c1 by simp
  have f': "fake = scale_images 255 (tile3 generated)" using f c1 by simp
  have sG: "shape generated = [N, H, W, 1]" using shF sh by simp
  have s1: "shape real' = [N, H, W, 3]" using r' sh by (simp add: shape_tile3)
  have s2: "shape fake = [N, H, W, 3]" using f' sG by (simp add: shape_tile3)
  have p1: "\<forall>i j k v. i < length real_images \<longrightarrow> j < length (real_images ! i) \<longrightarrow>
           k < length (real_images ! i ! j) \<longrightarrow> real_images ! i ! j ! k = [v] \<longrightarrow>
           real' ! i ! j ! k = [v, v, v]"
    using r' by (simp add: tile3_nth)
  have p2: "\<forall>i j k v. i < length generated \<longrightarrow> j < length (generated ! i) \<longrightarrow>
                 k < length (generated ! i ! j) \<longrightarrow> generated ! i ! j ! k = [v] \<longrightarrow>
                 fake ! i ! j ! k = [np_scale 255 v, np_scale 255 v, np_scale 255 v]"
    unfolding f' by (intro allI impI) (simp only: scale_tile3_nth, simp)
  have p3: "\<forall>i j k a. i < length generated \<longrightarrow> j < length (generated ! i) \<longrightarrow>
           k < length (generated ! i ! j) \<longrightarrow> generated ! i ! j ! k = [Val a] \<longrightarrow>
           fake ! i ! j ! k = [Val (255 * a), Val (255 * a), Val (255 * a)]"
    unfolding f' by (intro allI impI) (simp only: scale_tile3_nth, simp)
  from sG s1 s2 r' f' p1 p2 p3 show ?thesis by blast
qed

theorem BuildPopulations_single_channel_witness:
  "BuildPopulations ex_seq_env ''ckpt-1'' ex_options (tasks_to_run ex_seq_env) =
     Inr (50,
        replicate 40 [[[Val (1071 / 10), Val (1071 / 10), Val (1071 / 10)]]] @
        replicate 10 [[[Val (2193 / 20), Val (2193 / 20), Val (2193 / 20)]]],
        replicate 50 [[[Val 255, Val 255, Val 255]]], Map.empty, 44)
   \<and> shape (replicate 50 [[[Val 255]]]) = [50, 1, 1, 1]
   \<and> shape (replicate 40 [[[Val (21 / 50)]]] @ replicate 10 [[[Val (43 / 100)]]]) = [50, 1, 1, 1]
   \<and> shape (replicate 50 [[[Val 255, Val 255, Val 255]]]) = [50, 1, 1, 3]
   \<and> shape (replicate 40 [[[Val (1071 / 10), Val (1071 / 10), Val (1071 / 10)]]] @
            replicate 10 [[[Val (2193 / 20), Val (2193 / 20), Val (2193 / 20)]]]) = [50, 1, 1, 3]
   \<and> replicate 50 [[[Val 255, Val 255, Val 255]]] = tile3 (replicate 50 [[[Val 255]]])
   \<and> replicate 40 [[[Val (1071 / 10), Val (1071 / 10), Val (1071 / 10)]]] @
     replicate 10 [[[Val (2193 / 20), Val (2193 / 20), Val (2193 / 20)]]] =
       scale_images 255 (tile3
         (replicate 40 [[[Val (21 / 50)]]] @ replicate 10 [[[Val (43 / 100)]]]))
   \<and> (replicate 40 [[[Val (21 / 50)]]] @ replicate 10 [[[Val (43 / 100)]]]) ! 45 ! 0 ! 0 =
       [Val (43 / 100)]
   \<and> (replicate 40 [[[Val (1071 / 10), Val (1071 / 10), Val (1071 / 10)]]] @
      replicate 10 [[[Val (2193 / 20), Val (2193 / 20), Val (2193 / 20)]]]) ! 45 ! 0 ! 0 =
       [Val (255 * (43 / 100)), Val (255 * (43 / 100)), Val (255 * (43 / 100))]"
proof -
  let ?gen = "replicate 40 [[[Val (21 / 50)]]] @ replicate 10 [[[Val (43 / 100) :: npfloat]]]"
  have sh: "shape (replicate 50 [[[Val 255]]]) = [50, 1, 1, 1]"
    by (simp add: shape_replicate image_shape_def)
  have gr: "GetRealImages (load_dataset ex_seq_env) (StrV ''mnist'') ''test'' 50 True =
     Inr (replicate 50 [[[Val 255]]])"
    by (simp only: ex_seq_fields ex_real_images)
  have gen: "?gen = take (nat 50) (concat (map (fake_images ex_seq_gan)
                  (z_samples ex_seq_gan (nat \<lceil>real_of_int 50 / real (batch_size ex_seq_gan)\<rceil>)
                     (random_seed ex_seq_env 42))))"
    by (simp only: ex_seq_num_batches ex_seq_fields ex_seq_z_samples ex_seq_generated)
  note t = BuildPopulations_single_channel
    [OF ex_seq_BuildPopulations ex_options_simps(2) ex_options_simps(1) gr ex_seq_fields(2) gen sh]
  have p: "?gen ! 45 ! 0 ! 0 = [Val (43 / 100)]"
    by (simp add: nth_append)
  have i: "45 < length ?gen" "0 < length (?gen ! 45)" "0 < length (?gen ! 45 ! 0)"
    by (simp_all add: nth_append)
  from t i p have q: "(replicate 40 [[[Val (1071 / 10), Val (1071 / 10), Val (1071 / 10)]]] @
      replicate 10 [[[Val (2193 / 20), Val (2193 / 20), Val (2193 / 20)]]]) ! 45 ! 0 ! 0 =
       [Val (255 * (43 / 100)), Val (255 * (43 / 100)), Val (255 * (43 / 100))]"
    by blast
  from t sh p q ex_seq_BuildPopulations show ?thesis by blast
qed

subsection \<open>C7: the reported discriminator losses\<close>

text \<open>
  Claim C7 says that with R repeats the reported \<open>train_d_loss\<close> and \<open>test_d_loss\<close> are
  the means over the R per-repeat means. In the code the per-repeat lists and the
  per-batch lists are the same variables, emptied at the start of every repeat, so the
  reported value comes from the last repeat alone. Here two repeats of two batches have
  losses 1, 2 and then 4, 5: the per-repeat means are 3/2 and 9/2, their mean is 3, and
  the function reports 9/2 for both losses. The lists left by the first repeat are shown
  first.
\<close>

theorem ComputeAccuracyLoss_d_loss_last_repeat_only:
  "map_sum id (\<lambda>(v, s). (train_d_losses v, test_d_losses v))
     (repeat_body ex_choice (ex_gan 1) (replicate 3 [[[Val 255]]]) (replicate 2 [[[Val 255]]]) 2
        empty_locals 0) = Inr ([Val 1, Val 2, Val (3/2)], [Val 1, Val 2, Val (3/2)])
   \<and> map_sum id (\<lambda>(d, s). (d ''train_d_loss'', d ''test_d_loss''))
      (ComputeAccuracyLoss ex_load_dataset ex_choice ex_options (ex_gan 1)
        (replicate 2 [[[Val 255]]]) 50000 2 0) = Inr (Some (Val (9/2)), Some (Val (9/2)))"
  apply (rule conjI)
   apply (simp add: repeat_body_def ex_choice_def ex_gan_def empty_locals_def
        numeral_2_eq_2 numeral_3_eq_3 first_def slice_def bool_mean_def np_mean_def
        discriminator_threshold_def ex_fake_image_def)
  apply (simp add: ComputeAccuracyLoss_def ex_options_def ex_train_images repeat_body_def ex_choice_def ex_gan_def empty_locals_def
        numeral_2_eq_2 numeral_3_eq_3 first_def slice_def bool_mean_def np_mean_def
        discriminator_threshold_def ex_fake_image_def)
  done

subsection \<open>C8: a discriminator that is always right\<close>




subsection \<open>C9: only the first example of a batch counts\<close>

text \<open>
  Claim C9. Whenever one repeat of the computation returns, it has recorded per batch
  exactly one test, one train and one fake prediction, each the element \<open>[0]\<close> of the
  discriminator's output on that batch, and each accuracy appended by the repeat is the
  number of recorded predictions on the right side of the threshold divided by the
  number of batches.
\<close>

theorem repeat_body_first_example_only:
  assumes "repeat_body choice gan train_images test_images num_batches v s = Inr (v', s')"
  shows "0 < num_batches
     \<and> length (test_predictions v') = num_batches
     \<and> length (train_predictions v') = num_batches
     \<and> length (fake_predictions v') = num_batches
     \<and> (\<forall>i<num_batches.
          first (discriminator_output gan
            (slice test_images (i * batch_size gan) (i * batch_size gan + batch_size gan))) =
          Inr (test_predictions v' ! i))
     \<and> (\<forall>i<num_batches.
          first (discriminator_output gan
            (slice (map ((!) train_images) (fst (choice (length train_images) (length test_images) s)))
               (i * batch_size gan) (i * batch_size gan + batch_size gan))) =
          Inr (train_predictions v' ! i))
     \<and> (\<forall>i<num_batches.
          first (discriminator_output gan (fake_images gan
            (z_samples gan num_batches
               (snd (choice (length train_images) (length test_images) s)) ! i))) =
          Inr (fake_predictions v' ! i))
     \<and> test_accuracies v' = test_accuracies v @
          [Val (real (length (filter (\<lambda>x. np_ge x discriminator_threshold) (test_predictions v')))
                / real num_batches)]
     \<and> train_accuracies v' = train_accuracies v @
          [Val (real (length (filter (\<lambda>x. np_ge x discriminator_threshold) (train_predictions v')))
                / real num_batches)]
     \<and> fake_accuracies v' = fake_accuracies v @
          [Val (real (length (filter (\<lambda>x. np_lt x discriminator_threshold) (fake_predictions v')))
                / real num_batches)]"
proof -
  obtain idx s1 where ch: "choice (length train_images) (length test_images) s = (idx, s1)"
    by (cases "choice (length train_images) (length test_images) s")
  define v1 where "v1 = v\<lparr>train_predictions := [], test_predictions := [], fake_predictions := [],
                 train_d_losses := [], test_d_losses := []\<rparr>"
  from assms ch obtain train_subset v2 s2 train_accuracy test_accuracy fake_accuracy where
    ia: "index_all train_images idx = Inr train_subset" and
    bl: "batch_loop gan test_images train_subset [0..<num_batches] v1 s1 = Inr (v2, s2)" and
    tra: "bool_mean (map (\<lambda>x. np_ge x discriminator_threshold) (train_predictions v2)) = Inr train_accuracy" and
    tea: "bool_mean (map (\<lambda>x. np_ge x discriminator_threshold) (test_predictions v2)) = Inr test_accuracy" and
    fa: "bool_mean (map (\<lambda>x. np_lt x discriminator_threshold) (fake_predictions v2)) = Inr fake_accuracy" and
    v': "v' = v2\<lparr>train_accuracies := train_accuracies v2 @ [train_accuracy],
                 test_accuracies := test_accuracies v2 @ [test_accuracy],
                 fake_accuracies := fake_accuracies v2 @ [fake_accuracy],
                 train_d_losses := train_d_losses v2 @ [np_mean (train_d_losses v2)],
                 test_d_losses := test_d_losses v2 @ [np_mean (test_d_losses v2)]\<rparr>"
    by (auto simp: repeat_body_def Let_def and_then_eq_Inr v1_def split: if_splits)
  have ts: "train_subset = map ((!) train_images) idx"
    using ia by (simp add: index_all_eq_Inr)
  note r = batch_loop_records [OF bl]
  have t1: "length (test_predictions v2) = num_batches \<and> (\<forall>i<num_batches.
          first (discriminator_output gan
            (slice test_images (i * batch_size gan) (i * batch_size gan + batch_size gan))) =
          Inr (test_predictions v2 ! i))"
    using r by (intro map_Inr_eq_nth) (simp add: v1_def)
  have t2: "length (train_predictions v2) = num_batches \<and> (\<forall>i<num_batches.
          first (discriminator_output gan
            (slice train_subset (i * batch_size gan) (i * batch_size gan + batch_size gan))) =
          Inr (train_predictions v2 ! i))"
    using r by (intro map_Inr_eq_nth) (simp add: v1_def)
  have t3: "length (fake_predictions v2) = length (z_samples gan num_batches s1) \<and>
        (\<forall>i<length (z_samples gan num_batches s1).
          first (discriminator_output gan (fake_images gan (z_samples gan num_batches s1 ! i))) =
          Inr (fake_predictions v2 ! i))"
    using r by (intro map_Inr_eq_nth2) (simp add: v1_def)
  have acc: "train_accuracies v2 = train_accuracies v" "test_accuracies v2 = test_accuracies v"
     "fake_accuracies v2 = fake_accuracies v"
    using r by (simp_all add: v1_def)
  have pos: "0 < num_batches"
    using tea t1 by (auto simp: bool_mean_eq_Inr)
  show ?thesis
    using t1 t2 t3 acc pos tra tea fa
    by (simp add: v' ch ts bool_mean_eq_Inr comp_def)
qed

theorem repeat_body_first_example_only_witness:
  "\<exists>v' s'. repeat_body ex_choice ex_first_gan (replicate 4 ex_real_image)
              (replicate 4 ex_real_image) 2 empty_locals 0 = Inr (v', s')
     \<and> length (test_predictions v') = 2
     \<and> length (fake_predictions v') = 2
     \<and> test_predictions v' ! 0 = Val 1
     \<and> test_predictions v' ! 1 = Val 1
     \<and> fake_predictions v' ! 0 = Val 1
     \<and> test_accuracies v' =
         [Val (real (length (filter (\<lambda>x. np_ge x discriminator_threshold) (test_predictions v')))
               / real 2)]"
proof -
  obtain v' s' where r: "repeat_body ex_choice ex_first_gan (replicate 4 ex_real_image)
              (replicate 4 ex_real_image) 2 empty_locals 0 = Inr (v', s')"
    by (simp add: repeat_body_def ex_choice_def ex_first_gan_def empty_locals_def
        numeral_2_eq_2 first_def slice_def bool_mean_def discriminator_threshold_def
        eval_nat_numeral)
  note t = repeat_body_first_example_only [OF r]
  have f0: "first (discriminator_output ex_first_gan
              (slice (replicate 4 ex_real_image) (0 * batch_size ex_first_gan)
                 (0 * batch_size ex_first_gan + batch_size ex_first_gan))) = Inr (Val 1)"
    by (simp add: ex_first_gan_def slice_def first_def eval_nat_numeral)
  have f1: "first (discriminator_output ex_first_gan
              (slice (replicate 4 ex_real_image) (1 * batch_size ex_first_gan)
                 (1 * batch_size ex_first_gan + batch_size ex_first_gan))) = Inr (Val 1)"
    by (simp add: ex_first_gan_def slice_def first_def eval_nat_numeral)
  have g0: "first (discriminator_output ex_first_gan (fake_images ex_first_gan z)) = Inr (Val 1)" for z
    by (simp add: ex_first_gan_def first_def eval_nat_numeral)
  from t have a: "test_predictions v' ! 0 = Val 1"
    using f0 by (metis Inr_inject zero_less_numeral)
  from t have b: "test_predictions v' ! 1 = Val 1"
    using f1 by (metis Inr_inject one_less_numeral_iff semiring_norm(76))
  from t have c: "fake_predictions v' ! 0 = Val 1"
    using g0 by (metis Inr_inject zero_less_numeral)
  from t have d: "length (test_predictions v') = 2" "length (fake_predictions v') = 2"
    "test_accuracies v' =
         [Val (real (length (filter (\<lambda>x. np_ge x discriminator_threshold) (test_predictions v')))
               / real 2)]"
    by (simp_all add: empty_locals_def)
  show ?thesis using r a b c d by blast
qed

subsection \<open>C10: fewer train images than test images\<close>

text \<open>
  Claim C10. Loading the train split never fails in \<open>ComputeAccuracyLoss\<close> (a short
  population is returned), and when it yields fewer images than there are test images
  the function raises ValueError and returns no metrics.
\<close>

theorem ComputeAccuracyLoss_fewer_train:
  assumes "options ''dataset'' = Some dataset"
      and "length (take (nat max_train_examples) (loader dataset ''train''))
             < length test_images"
  shows "GetRealImages loader dataset ''train'' max_train_examples False =
           Inr (scale_images 255 (take (nat max_train_examples) (loader dataset ''train'')))
       \<and> ComputeAccuracyLoss loader choice options gan test_images
           max_train_examples num_repeat s = Inl ValueError"
  using assms
  by (simp add: ComputeAccuracyLoss_def GetRealImages_def scale_images_def)

theorem ComputeAccuracyLoss_fewer_train_witness:
  "ex_options ''dataset'' = Some (StrV ''mnist'')
   \<and> length (take (nat 50000) (ex_load_dataset (StrV ''mnist'') ''train'')) < length (replicate 4 ex_real_image)
   \<and> ComputeAccuracyLoss ex_load_dataset ex_choice ex_options (ex_gan 1)
        (replicate 4 ex_real_image) 50000 5 (0::nat) = Inl ValueError"
proof -
  have ds: "ex_options ''dataset'' = Some (StrV ''mnist'')"
    by (simp add: ex_options_def)
  have lt: "length (take (nat 50000) (ex_load_dataset (StrV ''mnist'') ''train'')) < length (replicate 4 ex_real_image)"
    by (simp add: ex_load_dataset_def)
  show ?thesis
    using ds lt ComputeAccuracyLoss_fewer_train
        [where options = ex_options and dataset = "StrV ''mnist''" and loader = ex_load_dataset
           and max_train_examples = 50000 and test_images = "replicate 4 ex_real_image"
           and gan = "ex_gan 1" and choice = ex_choice and num_repeat = 5 and s = 0]
    by simp
qed

end
